theory Spec2Isabelle
  imports Complex_Main
begin

section \<open>The progress engine of \<^verbatim>\<open>statsService.ts\<close>\<close>

text \<open>
  The service keeps one row of gamification state per user in the remote table
  \<^verbatim>\<open>user_stats\<close> and exposes asynchronous operations that read the row,
  compute in memory and write a partial update back. The embedding below follows the
  source function by function. JavaScript numbers are modelled as mathematical integers,
  strings as \<open>string\<close>, a thrown \<^verbatim>\<open>Error\<close> as a value of \<open>error\<close>.
  The Supabase client, the authentication service and the clock are the environment:
  they appear as fields of an explicit world that every operation reads and updates.
  \<^verbatim>\<open>getLeaderboard\<close>, a read-only query across all rows that returns \<^verbatim>\<open>[]\<close> on
  failure, is left out.
\<close>

subsection \<open>Data\<close>

text \<open>
  \<^verbatim>\<open>Badge\<close> (from \<^verbatim>\<open>../types\<close>): the service reads and writes the fields
  \<^verbatim>\<open>id\<close>, \<^verbatim>\<open>name\<close> and \<^verbatim>\<open>unlocked\<close>; any further display field is carried
  along unchanged by the object spreads and plays no part here.
\<close>

record Badge =
  badge_id :: string
  badge_name :: string
  unlocked :: bool

text \<open>\<^verbatim>\<open>UserStats\<close>, the in-memory progress record returned by \<^verbatim>\<open>getUserStats\<close>.\<close>

record UserStats =
  experience :: int
  level :: int
  badges :: "Badge list"
  nextLevelXP :: int
  topicsExplored :: "string list"
  messagesCount :: int

text \<open>An element of the \<^verbatim>\<open>badges_unlocked\<close> JSON column.\<close>

record StoredBadge =
  stored_id :: string
  stored_name :: string
  unlockedAt :: string

text \<open>
  The columns of a \<^verbatim>\<open>user_stats\<close> row that the service touches (the key
  \<^verbatim>\<open>user_id\<close> is the index of the table below). The two list columns may hold
  \<^verbatim>\<open>null\<close>, which the source replaces by \<^verbatim>\<open>[]\<close>.
\<close>

record StatsRow =
  experience_points :: int
  row_level :: int
  total_messages :: int
  badges_unlocked :: "StoredBadge list option"
  topics_explored :: "string list option"
  last_message_at :: "string option"

text \<open>The argument of \<^verbatim>\<open>updateUserStats\<close>: every field may be \<^verbatim>\<open>undefined\<close>.\<close>

record Updates =
  upd_experience :: "int option"
  upd_level :: "int option"
  upd_badges :: "Badge list option"
  upd_topicsExplored :: "string list option"
  upd_messagesCount :: "int option"

text \<open>The object \<^verbatim>\<open>updateData\<close> sent to the store: the columns to overwrite.\<close>

record UpdateData =
  set_experience_points :: "int option"
  set_level :: "int option"
  set_badges_unlocked :: "StoredBadge list option"
  set_topics_explored :: "string list option"
  set_total_messages :: "int option"
  set_last_message_at :: "string option"

text \<open>
  A thrown JavaScript exception: \<^verbatim>\<open>new Error(message)\<close>, or the \<^verbatim>\<open>TypeError\<close>
  of reading a property of \<^verbatim>\<open>undefined\<close>.
\<close>

datatype error = Error string | TypeError

subsection \<open>The environment: authentication, store, clock\<close>

text \<open>
  The world the service runs in. \<open>current_user\<close> is what \<^verbatim>\<open>getUserId()\<close> answers;
  \<open>user_stats\<close> is the remote table; \<open>clock_iso\<close> and \<open>clock_hour\<close> are what
  \<^verbatim>\<open>new Date().toISOString()\<close> and \<^verbatim>\<open>new Date().getHours()\<close> answer.
  The store may fail: \<open>read_faults\<close> and \<open>write_faults\<close> schedule the outcome of the
  coming store reads and writes, one entry per call (an exhausted schedule means the
  call goes through). \<open>write_log\<close> records every update request issued, with its outcome.
\<close>

record world =
  current_user :: "string option"
  user_stats :: "string \<rightharpoonup> StatsRow"
  read_faults :: "bool list"
  write_faults :: "string option list"
  clock_iso :: string
  clock_hour :: nat
  write_log :: "(string \<times> UpdateData \<times> string option) list"

text \<open>
  An asynchronous operation: it runs in a world, leaves a world behind, and either
  returns a value or throws. What was written before a throw stays written.
\<close>

type_synonym 'a action = "world \<Rightarrow> (error + 'a) \<times> world"

definition ret :: "'a \<Rightarrow> 'a action" where
  "ret v = (\<lambda>w. (Inr v, w))"

definition throw :: "error \<Rightarrow> 'a action" where
  "throw e = (\<lambda>w. (Inl e, w))"

definition bnd :: "'a action \<Rightarrow> ('a \<Rightarrow> 'b action) \<Rightarrow> 'b action" where
  "bnd f g = (\<lambda>w. case f w of (Inl e, w1) \<Rightarrow> (Inl e, w1) | (Inr v, w1) \<Rightarrow> g v w1)"

text \<open>
  \<^verbatim>\<open>supabase.from('user_stats').select('*').eq('user_id', userId).single()\<close>:
  the answer is the row, or an error (\<open>None\<close>) when the request fails or when no
  row matches, as \<^verbatim>\<open>single()\<close> demands exactly one.
\<close>

definition store_select :: "string \<Rightarrow> world \<Rightarrow> StatsRow option \<times> world" where
  "store_select userId w =
     (case read_faults w of
        [] \<Rightarrow> (user_stats w userId, w)
      | failed # rest \<Rightarrow>
          (if failed then None else user_stats w userId, w\<lparr>read_faults := rest\<rparr>))"

definition apply_update :: "UpdateData \<Rightarrow> StatsRow \<Rightarrow> StatsRow" where
  "apply_update d r =
     \<lparr> experience_points = (case set_experience_points d of None \<Rightarrow> experience_points r | Some v \<Rightarrow> v),
       row_level = (case set_level d of None \<Rightarrow> row_level r | Some v \<Rightarrow> v),
       total_messages = (case set_total_messages d of None \<Rightarrow> total_messages r | Some v \<Rightarrow> v),
       badges_unlocked = (case set_badges_unlocked d of None \<Rightarrow> badges_unlocked r | Some v \<Rightarrow> Some v),
       topics_explored = (case set_topics_explored d of None \<Rightarrow> topics_explored r | Some v \<Rightarrow> Some v),
       last_message_at = (case set_last_message_at d of None \<Rightarrow> last_message_at r | Some v \<Rightarrow> Some v) \<rparr>"

text \<open>
  \<^verbatim>\<open>supabase.from('user_stats').update(updateData).eq('user_id', userId)\<close>:
  the answer is an error message, or \<open>None\<close> on success; on success the matching row,
  if there is one, has the given columns overwritten.
\<close>

definition store_update :: "string \<Rightarrow> UpdateData \<Rightarrow> world \<Rightarrow> string option \<times> world" where
  "store_update userId d w =
     (let outcome = (case write_faults w of [] \<Rightarrow> None | x # _ \<Rightarrow> x);
          w1 = w\<lparr>write_faults := tl (write_faults w),
                 write_log := write_log w @ [(userId, d, outcome)]\<rparr>
      in case outcome of
           Some message \<Rightarrow> (Some message, w1)
         | None \<Rightarrow>
             (None, w1\<lparr>user_stats :=
                (case user_stats w userId of
                   None \<Rightarrow> user_stats w
                 | Some r \<Rightarrow> (user_stats w)(userId \<mapsto> apply_update d r))\<rparr>))"

subsection \<open>Levels\<close>

definition calculateNextLevelXP :: "int \<Rightarrow> int" where
  "calculateNextLevelXP lvl = lvl * 100"

text \<open>\<^verbatim>\<open>Math.floor(xp / 100) + 1\<close>: the division is that of the reals.\<close>

definition calculateLevel :: "int \<Rightarrow> int" where
  "calculateLevel xp = \<lfloor>real_of_int xp / 100\<rfloor> + 1"

subsection \<open>Reading progress\<close>

text \<open>The object literal returned on both fall-back paths of \<^verbatim>\<open>getUserStats\<close>.\<close>

definition defaultStats :: "Badge list \<Rightarrow> UserStats" where
  "defaultStats INITIAL_BADGES =
     \<lparr> experience = 0, level = 1, badges = INITIAL_BADGES, nextLevelXP = 100,
       topicsExplored = [], messagesCount = 0 \<rparr>"

text \<open>
  \<^verbatim>\<open>INITIAL_BADGES\<close> is imported from \<^verbatim>\<open>../constants\<close>; it is a parameter of
  every operation that reads progress.
\<close>

definition getUserStats :: "Badge list \<Rightarrow> world \<Rightarrow> UserStats \<times> world" where
  "getUserStats INITIAL_BADGES w =
     (case current_user w of
        None \<Rightarrow> (defaultStats INITIAL_BADGES, w)
      | Some userId \<Rightarrow>
          (case store_select userId w of
             (None, w1) \<Rightarrow> (defaultStats INITIAL_BADGES, w1)
           | (Some data, w1) \<Rightarrow>
               (let badgesFromDb = (case badges_unlocked data of None \<Rightarrow> [] | Some bs \<Rightarrow> bs);
                    badges = map (\<lambda>badge. badge\<lparr>unlocked :=
                               list_ex (\<lambda>b. stored_id b = badge_id badge) badgesFromDb\<rparr>)
                               INITIAL_BADGES
                in (\<lparr> experience = experience_points data,
                       level = row_level data,
                       badges = badges,
                       nextLevelXP = calculateNextLevelXP (row_level data),
                       topicsExplored = (case topics_explored data of None \<Rightarrow> [] | Some ts \<Rightarrow> ts),
                       messagesCount = total_messages data \<rparr>, w1))))"

text \<open>\<^verbatim>\<open>await getUserStats()\<close> inside another operation: it never throws.\<close>

definition readStats :: "Badge list \<Rightarrow> UserStats action" where
  "readStats INITIAL_BADGES = (\<lambda>w. case getUserStats INITIAL_BADGES w of (s, w1) \<Rightarrow> (Inr s, w1))"

subsection \<open>Writing progress\<close>

definition noUpdates :: Updates where
  "noUpdates = \<lparr> upd_experience = None, upd_level = None, upd_badges = None,
                 upd_topicsExplored = None, upd_messagesCount = None \<rparr>"

definition emptyUpdateData :: UpdateData where
  "emptyUpdateData = \<lparr> set_experience_points = None, set_level = None,
                       set_badges_unlocked = None, set_topics_explored = None,
                       set_total_messages = None, set_last_message_at = None \<rparr>"

text \<open>The four \<^verbatim>\<open>if (updates.x !== undefined)\<close> blocks that fill \<^verbatim>\<open>updateData\<close>.\<close>

definition buildUpdateData :: "Updates \<Rightarrow> string \<Rightarrow> UpdateData" where
  "buildUpdateData updates now =
     (let d0 = emptyUpdateData;
          d1 = (case upd_experience updates of
                  None \<Rightarrow> d0
                | Some xp \<Rightarrow> d0\<lparr>set_experience_points := Some xp,
                               set_level := Some (calculateLevel xp)\<rparr>);
          d2 = (case upd_badges updates of
                  None \<Rightarrow> d1
                | Some bs \<Rightarrow> d1\<lparr>set_badges_unlocked := Some
                    (map (\<lambda>b. \<lparr>stored_id = badge_id b, stored_name = badge_name b, unlockedAt = now\<rparr>)
                       (filter unlocked bs))\<rparr>);
          d3 = (case upd_topicsExplored updates of
                  None \<Rightarrow> d2
                | Some ts \<Rightarrow> d2\<lparr>set_topics_explored := Some ts\<rparr>);
          d4 = (case upd_messagesCount updates of
                  None \<Rightarrow> d3
                | Some n \<Rightarrow> d3\<lparr>set_total_messages := Some n, set_last_message_at := Some now\<rparr>)
      in d4)"

definition updateUserStats :: "Updates \<Rightarrow> unit action" where
  "updateUserStats updates w =
     (case current_user w of
        None \<Rightarrow> (Inl (Error ''User not authenticated''), w)
      | Some userId \<Rightarrow>
          (case store_update userId (buildUpdateData updates (clock_iso w)) w of
             (Some message, w1) \<Rightarrow> (Inl (Error message), w1)
           | (None, w1) \<Rightarrow> (Inr (), w1)))"

definition addExperience :: "Badge list \<Rightarrow> int \<Rightarrow> UserStats action" where
  "addExperience INITIAL_BADGES xpAmount =
     bnd (readStats INITIAL_BADGES) (\<lambda>currentStats.
       let newXP = experience currentStats + xpAmount;
           newLevel = calculateLevel newXP
       in bnd (updateUserStats (noUpdates\<lparr>upd_experience := Some newXP\<rparr>)) (\<lambda>_.
            ret (currentStats\<lparr>experience := newXP, level := newLevel,
                   nextLevelXP := calculateNextLevelXP newLevel\<rparr>)))"

definition unlockBadge :: "Badge list \<Rightarrow> string \<Rightarrow> bool action" where
  "unlockBadge INITIAL_BADGES badgeId =
     bnd (readStats INITIAL_BADGES) (\<lambda>currentStats.
       case find (\<lambda>b. badge_id b = badgeId) (badges currentStats) of
         None \<Rightarrow> ret False
       | Some badge \<Rightarrow>
           if unlocked badge then ret False
           else
             let updatedBadges =
                   map (\<lambda>b. if badge_id b = badgeId then b\<lparr>unlocked := True\<rparr> else b)
                     (badges currentStats)
             in bnd (updateUserStats (noUpdates\<lparr>upd_badges := Some updatedBadges\<rparr>)) (\<lambda>_.
                bnd (addExperience INITIAL_BADGES 50) (\<lambda>_.
                ret True)))"

definition addExploredTopic :: "Badge list \<Rightarrow> string \<Rightarrow> unit action" where
  "addExploredTopic INITIAL_BADGES topic =
     bnd (readStats INITIAL_BADGES) (\<lambda>currentStats.
       if topic \<notin> set (topicsExplored currentStats) then
         let updatedTopics = topicsExplored currentStats @ [topic]
         in bnd (updateUserStats (noUpdates\<lparr>upd_topicsExplored := Some updatedTopics\<rparr>)) (\<lambda>_.
              if length updatedTopics \<ge> 3
              then bnd (unlockBadge INITIAL_BADGES ''explorer'') (\<lambda>_. ret ())
              else ret ())
       else ret ())"

definition incrementMessageCount :: "Badge list \<Rightarrow> unit action" where
  "incrementMessageCount INITIAL_BADGES =
     bnd (readStats INITIAL_BADGES) (\<lambda>currentStats.
       let newCount = messagesCount currentStats + 1
       in bnd (updateUserStats (noUpdates\<lparr>upd_messagesCount := Some newCount\<rparr>)) (\<lambda>_.
          bnd (addExperience INITIAL_BADGES 10) (\<lambda>_.
          bnd (if newCount = 1
               then bnd (unlockBadge INITIAL_BADGES ''freshman'') (\<lambda>_. ret ())
               else ret ()) (\<lambda>_.
          (\<lambda>w. let hour = clock_hour w
                in (if hour \<ge> 22 \<or> hour < 6
                    then bnd (unlockBadge INITIAL_BADGES ''night_owl'') (\<lambda>_. ret ())
                    else ret ()) w)))))"

subsection \<open>One user interaction\<close>

text \<open>The loop \<^verbatim>\<open>for (const topic of topics) await addExploredTopic(topic)\<close>.\<close>

fun addExploredTopics :: "Badge list \<Rightarrow> string list \<Rightarrow> unit action" where
  "addExploredTopics INITIAL_BADGES [] = ret ()"
| "addExploredTopics INITIAL_BADGES (topic # topics) =
     bnd (addExploredTopic INITIAL_BADGES topic) (\<lambda>_. addExploredTopics INITIAL_BADGES topics)"

text \<open>
  \<^verbatim>\<open>newStats.badges.filter((badge, idx) => badge.unlocked && !oldStats.badges[idx].unlocked)\<close>,
  run from index \<open>idx\<close> on. Where \<^verbatim>\<open>oldStats.badges[idx]\<close> is \<^verbatim>\<open>undefined\<close>,
  reading its \<^verbatim>\<open>unlocked\<close> throws; the \<^verbatim>\<open>&&\<close> reads it only for an unlocked badge.
\<close>

fun filterNewBadges :: "Badge list \<Rightarrow> nat \<Rightarrow> Badge list \<Rightarrow> error + Badge list" where
  "filterNewBadges oldBadges idx [] = Inr []"
| "filterNewBadges oldBadges idx (badge # rest) =
     (if unlocked badge then
        (if idx < length oldBadges then
           (case filterNewBadges oldBadges (idx + 1) rest of
              Inl e \<Rightarrow> Inl e
            | Inr kept \<Rightarrow> Inr (if \<not> unlocked (oldBadges ! idx) then badge # kept else kept))
         else Inl TypeError)
      else filterNewBadges oldBadges (idx + 1) rest)"

definition processUserInteraction ::
    "Badge list \<Rightarrow> string \<Rightarrow> string list \<Rightarrow> (Badge list \<times> bool) action" where
  "processUserInteraction INITIAL_BADGES messageText topics =
     bnd (readStats INITIAL_BADGES) (\<lambda>oldStats.
     bnd (incrementMessageCount INITIAL_BADGES) (\<lambda>_.
     bnd (addExploredTopics INITIAL_BADGES topics) (\<lambda>_.
     bnd (readStats INITIAL_BADGES) (\<lambda>newStats.
       let leveledUp = level newStats > level oldStats
       in case filterNewBadges (badges oldStats) 0 (badges newStats) of
            Inl e \<Rightarrow> throw e
          | Inr newBadges \<Rightarrow>
              bnd (if level newStats \<ge> 5
                   then bnd (unlockBadge INITIAL_BADGES ''scholar'') (\<lambda>_. ret ())
                   else ret ()) (\<lambda>_.
              ret (newBadges, leveledUp))))))"

subsection \<open>Reset\<close>

definition resetData :: UpdateData where
  "resetData = \<lparr> set_experience_points = Some 0, set_level = Some 1,
                 set_badges_unlocked = Some [], set_topics_explored = Some [],
                 set_total_messages = Some 0, set_last_message_at = None \<rparr>"

definition resetUserStats :: "unit action" where
  "resetUserStats w =
     (case current_user w of
        None \<Rightarrow> (Inl (Error ''User not authenticated''), w)
      | Some userId \<Rightarrow>
          (case store_update userId resetData w of
             (Some message, w1) \<Rightarrow> (Inl (Error message), w1)
           | (None, w1) \<Rightarrow> (Inr (), w1)))"

subsection \<open>The context summary\<close>

text \<open>\<^verbatim>\<open>String(n)\<close> for an integer, \<^verbatim>\<open>join\<close>, and \<^verbatim>\<open>trim\<close> on ASCII text.\<close>

function decimal :: "nat \<Rightarrow> string" where
  "decimal n = (if n < 10 then [char_of (48 + n)] else decimal (n div 10) @ [char_of (48 + n mod 10)])"
  by pat_completeness auto
termination
  by (relation "measure id") auto

definition numberToString :: "int \<Rightarrow> string" where
  "numberToString n = (if n < 0 then ''-'' @ decimal (nat (- n)) else decimal (nat n))"

fun join :: "string \<Rightarrow> string list \<Rightarrow> string" where
  "join sep [] = []"
| "join sep [x] = x"
| "join sep (x # y # ys) = x @ sep @ join sep (y # ys)"

definition isSpace :: "char \<Rightarrow> bool" where
  "isSpace c \<longleftrightarrow> c \<in> {CHR '' '', CHR 0x09, CHR 0x0A, CHR 0x0B, CHR 0x0C, CHR 0x0D}"

definition trim :: "string \<Rightarrow> string" where
  "trim s = rev (dropWhile isSpace (rev (dropWhile isSpace s)))"

text \<open>\<^verbatim>\<open>text || fallback\<close> on strings: the empty string is falsy.\<close>

definition orElse :: "string \<Rightarrow> string \<Rightarrow> string" where
  "orElse s fallback = (if s = [] then fallback else s)"

definition generateUserContextSummary :: "Badge list \<Rightarrow> string action" where
  "generateUserContextSummary INITIAL_BADGES =
     bnd (readStats INITIAL_BADGES) (\<lambda>stats.
       ret (trim
         ([CHR 0x0A] @ ''User Level: '' @ numberToString (level stats) @
          [CHR 0x0A] @ ''Total Messages: '' @ numberToString (messagesCount stats) @
          [CHR 0x0A] @ ''Topics Explored: '' @
             orElse (join '', '' (topicsExplored stats)) ''None yet'' @
          [CHR 0x0A] @ ''Unlocked Badges: '' @
             orElse (join '', '' (map badge_name (filter unlocked (badges stats)))) ''None yet'' @
          [CHR 0x0A] @ ''  '')))"

subsection \<open>The operations as one interface\<close>

text \<open>
  A call of one exported operation with its arguments, and the value it resolves to.
  \<open>run_ops\<close> issues calls one after the other, as the user interface does: a call that
  throws does not stop the later ones.
\<close>

datatype engine_op =
    GetUserStats
  | UpdateUserStats Updates
  | AddExperience int
  | UnlockBadge string
  | AddExploredTopic string
  | IncrementMessageCount
  | ProcessUserInteraction string "string list"
  | GenerateUserContextSummary
  | ResetUserStats

datatype outcome =
    Stats UserStats
  | Done
  | Flag bool
  | Diff "Badge list" bool
  | Text string

fun run_op :: "Badge list \<Rightarrow> engine_op \<Rightarrow> outcome action" where
  "run_op cat GetUserStats = bnd (readStats cat) (\<lambda>s. ret (Stats s))"
| "run_op cat (UpdateUserStats u) = bnd (updateUserStats u) (\<lambda>_. ret Done)"
| "run_op cat (AddExperience n) = bnd (addExperience cat n) (\<lambda>s. ret (Stats s))"
| "run_op cat (UnlockBadge b) = bnd (unlockBadge cat b) (\<lambda>r. ret (Flag r))"
| "run_op cat (AddExploredTopic t) = bnd (addExploredTopic cat t) (\<lambda>_. ret Done)"
| "run_op cat IncrementMessageCount = bnd (incrementMessageCount cat) (\<lambda>_. ret Done)"
| "run_op cat (ProcessUserInteraction m ts) =
     bnd (processUserInteraction cat m ts) (\<lambda>(bs, up). ret (Diff bs up))"
| "run_op cat GenerateUserContextSummary =
     bnd (generateUserContextSummary cat) (\<lambda>t. ret (Text t))"
| "run_op cat ResetUserStats = bnd resetUserStats (\<lambda>_. ret Done)"

fun run_ops :: "Badge list \<Rightarrow> engine_op list \<Rightarrow> world \<Rightarrow> world" where
  "run_ops cat [] w = w"
| "run_ops cat (op # ops) w = run_ops cat ops (snd (run_op cat op w))"

subsection \<open>Notions used in the statements\<close>

text \<open>
  Normal operation: the user \<open>uid\<close> is signed in, the row \<open>r\<close> is stored for them,
  and no failure of the store is scheduled.
\<close>

definition normal :: "string \<Rightarrow> StatsRow \<Rightarrow> world \<Rightarrow> bool" where
  "normal uid r w \<longleftrightarrow>
     current_user w = Some uid \<and> user_stats w uid = Some r \<and>
     read_faults w = [] \<and> write_faults w = []"

text \<open>The world after update requests \<open>entries\<close> have left \<open>r\<close> as the row of \<open>uid\<close>.\<close>

definition commit :: "string \<Rightarrow> StatsRow \<Rightarrow> (string \<times> UpdateData \<times> string option) list \<Rightarrow> world \<Rightarrow> world" where
  "commit uid r entries w =
     w\<lparr>user_stats := (user_stats w)(uid \<mapsto> r), write_log := write_log w @ entries\<rparr>"

text \<open>What \<^verbatim>\<open>getUserStats\<close> makes of a row that it could read.\<close>

definition statsOfRow :: "Badge list \<Rightarrow> StatsRow \<Rightarrow> UserStats" where
  "statsOfRow cat r =
     \<lparr> experience = experience_points r,
       level = row_level r,
       badges = map (\<lambda>badge. badge\<lparr>unlocked :=
                  list_ex (\<lambda>b. stored_id b = badge_id badge)
                    (case badges_unlocked r of None \<Rightarrow> [] | Some bs \<Rightarrow> bs)\<rparr>) cat,
       nextLevelXP = calculateNextLevelXP (row_level r),
       topicsExplored = (case topics_explored r of None \<Rightarrow> [] | Some ts \<Rightarrow> ts),
       messagesCount = total_messages r \<rparr>"

text \<open>
  A stored row is consistent when its level is the one its experience gives; the
  record of a user is consistent when their row, if there is one, is.
\<close>

definition consistentRow :: "StatsRow \<Rightarrow> bool" where
  "consistentRow r \<longleftrightarrow> row_level r = experience_points r div 100 + 1"

definition consistent :: "string \<Rightarrow> world \<Rightarrow> bool" where
  "consistent uid w \<longleftrightarrow>
     (case user_stats w uid of None \<Rightarrow> True | Some r \<Rightarrow> consistentRow r)"

text \<open>An update request carries experience and level together, and the level fits.\<close>

definition levelWithExperience :: "UpdateData \<Rightarrow> bool" where
  "levelWithExperience d \<longleftrightarrow>
     (case set_experience_points d of
        None \<Rightarrow> set_level d = None
      | Some xp \<Rightarrow> set_level d = Some (xp div 100 + 1))"

text \<open>The update requests issued between two worlds.\<close>

definition requestsSince :: "world \<Rightarrow> world \<Rightarrow> (string \<times> UpdateData \<times> string option) list" where
  "requestsSince w w' = drop (length (write_log w)) (write_log w')"

text \<open>The ids that a badge list names.\<close>

definition badgeIds :: "Badge list \<Rightarrow> string set" where
  "badgeIds bs = badge_id ` set bs"

subsection \<open>Normal operation, row by row\<close>

text \<open>
  Under normal operation every operation amounts to a function on the user's row.
  The functions below name these row transformers; the lemmas of the next sections
  prove that the operations compute them.
\<close>

text \<open>The row after \<^verbatim>\<open>addExperience\<close>: experience raised, level recomputed.\<close>

definition gainRow :: "int \<Rightarrow> StatsRow \<Rightarrow> StatsRow" where
  "gainRow n r = r\<lparr>experience_points := experience_points r + n,
                   row_level := calculateLevel (experience_points r + n)\<rparr>"

text \<open>The world \<open>w'\<close> is \<open>w\<close> after some update requests that left \<open>r\<close> as the row of \<open>uid\<close>.\<close>

definition evolved :: "string \<Rightarrow> StatsRow \<Rightarrow> world \<Rightarrow> world \<Rightarrow> bool" where
  "evolved uid r w w' \<longleftrightarrow> (\<exists>lg. w' = commit uid r lg w)"

text \<open>The topics of a row, \<^verbatim>\<open>data.topics_explored || []\<close>.\<close>

definition topicsOf :: "StatsRow \<Rightarrow> string list" where
  "topicsOf r = (case topics_explored r of None \<Rightarrow> [] | Some ts \<Rightarrow> ts)"

text \<open>The badge ids stored in a row.\<close>

definition storedIds :: "StatsRow \<Rightarrow> string set" where
  "storedIds r = stored_id ` set (case badges_unlocked r of None \<Rightarrow> [] | Some bs \<Rightarrow> bs)"

text \<open>
  The row after the badge write of \<^verbatim>\<open>unlockBadge\<close>: the unlocked badges of the
  snapshot, with \<open>bid\<close> among them, stamped with the time of the write.
\<close>

definition unlockRow :: "Badge list \<Rightarrow> string \<Rightarrow> string \<Rightarrow> StatsRow \<Rightarrow> StatsRow" where
  "unlockRow cat bid now r =
     r\<lparr>badges_unlocked := Some
         (map (\<lambda>b. \<lparr>stored_id = badge_id b, stored_name = badge_name b, unlockedAt = now\<rparr>)
            (filter unlocked
               (map (\<lambda>b. if badge_id b = bid then b\<lparr>unlocked := True\<rparr> else b)
                  (badges (statsOfRow cat r)))))\<rparr>"

text \<open>The row after \<^verbatim>\<open>unlockBadge\<close>: a locked catalog badge is stored and pays 50 points.\<close>

definition tryUnlock :: "Badge list \<Rightarrow> string \<Rightarrow> string \<Rightarrow> StatsRow \<Rightarrow> StatsRow" where
  "tryUnlock cat bid now r =
     (if bid \<in> badgeIds cat \<and> bid \<notin> storedIds r then gainRow 50 (unlockRow cat bid now r) else r)"

text \<open>The row after \<^verbatim>\<open>addExploredTopic\<close>.\<close>

definition topicRow :: "Badge list \<Rightarrow> string \<Rightarrow> string \<Rightarrow> StatsRow \<Rightarrow> StatsRow" where
  "topicRow cat now t r =
     (if t \<in> set (topicsOf r) then r
      else let r1 = r\<lparr>topics_explored := Some (topicsOf r @ [t])\<rparr>
           in if length (topicsOf r) + 1 \<ge> 3 then tryUnlock cat ''explorer'' now r1 else r1)"

text \<open>The row after \<^verbatim>\<open>incrementMessageCount\<close> at a given time and hour.\<close>

definition messageRow :: "Badge list \<Rightarrow> string \<Rightarrow> nat \<Rightarrow> StatsRow \<Rightarrow> StatsRow" where
  "messageRow cat now hour r =
     (let r1 = r\<lparr>total_messages := total_messages r + 1, last_message_at := Some now\<rparr>;
          r2 = gainRow 10 r1;
          r3 = (if total_messages r + 1 = 1 then tryUnlock cat ''freshman'' now r2 else r2)
      in if hour \<ge> 22 \<or> hour < 6 then tryUnlock cat ''night_owl'' now r3 else r3)"

text \<open>
  The badges unlocked in the new list at a position where the old list has a locked
  one: the result of the indexed filter when every index is in bounds.
\<close>

definition positionalDiff :: "Badge list \<Rightarrow> Badge list \<Rightarrow> Badge list" where
  "positionalDiff oldBadges newBadges =
     map snd (filter (\<lambda>(old, new). unlocked new \<and> \<not> unlocked old) (zip oldBadges newBadges))"

text \<open>The row at the second snapshot of \<^verbatim>\<open>processUserInteraction\<close>.\<close>

definition processRow :: "Badge list \<Rightarrow> string \<Rightarrow> nat \<Rightarrow> string list \<Rightarrow> StatsRow \<Rightarrow> StatsRow" where
  "processRow cat now hour ts r = fold (topicRow cat now) ts (messageRow cat now hour r)"

subsection \<open>Further notions and sample data\<close>

text \<open>
  The state of a badge in a badge list, as \<^verbatim>\<open>unlockBadge\<close> finds it: \<open>None\<close> for an
  unknown id, otherwise the \<open>unlocked\<close> flag of the first badge with that id.
\<close>

definition badgeState :: "string \<Rightarrow> Badge list \<Rightarrow> bool option" where
  "badgeState bid bs = map_option unlocked (find (\<lambda>b. badge_id b = bid) bs)"

text \<open>
  The experience \<open>xp\<close> is where the level \<open>lvl\<close> is entered: the level is \<open>lvl\<close>
  there and lower one point of experience before.
\<close>

definition levelEnteredAt :: "int \<Rightarrow> int \<Rightarrow> bool" where
  "levelEnteredAt lvl xp \<longleftrightarrow> calculateLevel xp = lvl \<and> calculateLevel (xp - 1) < lvl"


text \<open>
  Sample data for the concrete instances below: a catalog with the four badge ids the
  service names, the row of a fresh user, and a world with one user \<open>u1\<close>, a working
  store and the clock at noon.
\<close>

definition demoBadges :: "Badge list" where
  "demoBadges =
     [\<lparr>badge_id = ''freshman'', badge_name = ''Freshman'', unlocked = False\<rparr>,
      \<lparr>badge_id = ''explorer'', badge_name = ''Explorer'', unlocked = False\<rparr>,
      \<lparr>badge_id = ''scholar'', badge_name = ''Scholar'', unlocked = False\<rparr>,
      \<lparr>badge_id = ''night_owl'', badge_name = ''Night Owl'', unlocked = False\<rparr>]"

definition freshRow :: StatsRow where
  "freshRow = \<lparr> experience_points = 0, row_level = 1, total_messages = 0,
                badges_unlocked = Some [], topics_explored = Some [], last_message_at = None \<rparr>"

definition worldOf :: "string option \<Rightarrow> StatsRow \<Rightarrow> world" where
  "worldOf user r =
     \<lparr> current_user = user, user_stats = [''u1'' \<mapsto> r], read_faults = [], write_faults = [],
       clock_iso = ''2024-05-01T12:00:00.000Z'', clock_hour = 12, write_log = [] \<rparr>"

text \<open>The state of the explorer badge after a run of \<^verbatim>\<open>addExploredTopic\<close> calls.\<close>

definition explorerAfter :: "Badge list \<Rightarrow> string list \<Rightarrow> world \<Rightarrow> bool option" where
  "explorerAfter cat ts w =
     badgeState ''explorer'' (badges (fst (getUserStats cat (snd (addExploredTopics cat ts w)))))"



subsection \<open>Properties of operations\<close>

text \<open>
  An operation preserves a property of the world.
\<close>

definition preserves :: "(world \<Rightarrow> bool) \<Rightarrow> 'a action \<Rightarrow> bool" where
  "preserves I f \<longleftrightarrow> (\<forall>w. I w \<longrightarrow> I (snd (f w)))"

text \<open>
  A property of the world that the three store-facing primitives preserve.
\<close>

definition storeInvariant :: "(world \<Rightarrow> bool) \<Rightarrow> bool" where
  "storeInvariant I \<longleftrightarrow>
     (\<forall>cat. preserves I (readStats cat)) \<and>
     (\<forall>u. preserves I (updateUserStats u)) \<and>
     preserves I resetUserStats"

text \<open>
  Every update request issued after the first \<open>n\<close> carries the level with the experience.
\<close>

definition logged :: "nat \<Rightarrow> world \<Rightarrow> bool" where
  "logged n w \<longleftrightarrow>
     n \<le> length (write_log w) \<and>
     (\<forall>e \<in> set (drop n (write_log w)). levelWithExperience (fst (snd e)))"

text \<open>
  An operation is disciplined when it leaves the signed-in user alone, only appends to
  the request log, throws the message of every failed request it issued, and throws
  nothing else, except the authentication message when nobody is signed in.
\<close>

definition disciplined :: "'a action \<Rightarrow> bool" where
  "disciplined f \<longleftrightarrow>
     (\<forall>w. case f w of (r, w') \<Rightarrow>
        current_user w' = current_user w \<and>
        (\<exists>new. write_log w' = write_log w @ new \<and>
           (\<forall>u d m. (u, d, Some m) \<in> set new \<longrightarrow> r = Inl (Error m)) \<and>
           (\<forall>e. r = Inl e \<longrightarrow>
              (current_user w = None \<and> e = Error ''User not authenticated'') \<or>
              (\<exists>u d m. (u, d, Some m) \<in> set new \<and> e = Error m))))"

text \<open>
  A row whose stored badges name an id that the catalog does not have.
\<close>

definition ghostRow :: StatsRow where
  "ghostRow = freshRow\<lparr>badges_unlocked := Some
     [\<lparr>stored_id = ''ghost'', stored_name = ''Ghost'', unlockedAt = ''2024-01-01T00:00:00.000Z''\<rparr>,
      \<lparr>stored_id = ''explorer'', stored_name = ''Explorer'', unlockedAt = ''2024-01-02T00:00:00.000Z''\<rparr>]\<rparr>"

section \<open>Levels and thresholds\<close>

lemma calculateLevel_div: "calculateLevel xp = xp div 100 + 1"
proof -
  have "\<lfloor>real_of_int xp / real_of_int 100\<rfloor> = xp div 100"
    by (rule floor_divide_of_int_eq)
  then show ?thesis by (simp add: calculateLevel_def)
qed

text \<open>
  Claim C7. \<^verbatim>\<open>calculateLevel\<close> is \<open>floor (xp / 100) + 1\<close> for every non-negative
  integer \<open>xp\<close>: the integer quotient plus one, that is, the level \<open>l\<close> with
  \<open>100 (l - 1) \<le> xp < 100 l\<close>. In particular the levels of 0, 99, 100 and 250 are
  1, 1, 2 and 3.
\<close>

theorem calculateLevel_floor:
  assumes "0 \<le> xp"
  shows "calculateLevel xp = xp div 100 + 1 \<and>
         100 * (calculateLevel xp - 1) \<le> xp \<and> xp < 100 * calculateLevel xp \<and>
         calculateLevel 0 = 1 \<and> calculateLevel 99 = 1 \<and> calculateLevel 100 = 2 \<and>
         calculateLevel 250 = 3"
  using assms by (simp add: calculateLevel_div) presburger

theorem calculateLevel_floor_witness:
  "(0::int) \<le> 734 \<and> calculateLevel 734 = 8 \<and> 700 \<le> (734::int) \<and> (734::int) < 800"
  using calculateLevel_floor[of 734] by simp

text \<open>
  Claim C8, as stated, fails in its last part: the value returned for the current level
  is not the experience at which that level was entered. For level 1 it is 100, where
  the level is already 2; level 1 is entered at 0.
\<close>

theorem nextLevelXP_current_level_counterexample:
  "calculateNextLevelXP 1 = 100 \<and> calculateLevel (calculateNextLevelXP 1) = 2 \<and>
   \<not> levelEnteredAt 1 (calculateNextLevelXP 1) \<and> levelEnteredAt 1 0"
  by (simp add: levelEnteredAt_def calculateLevel_div calculateNextLevelXP_def)

text \<open>
  Claim C8, amended. \<^verbatim>\<open>calculateNextLevelXP\<close> is \<open>level * 100\<close> for every positive
  level, and \<^verbatim>\<open>calculateLevel\<close> of it is \<open>level + 1\<close>: the returned value is the
  experience at which the next level is entered, an absolute threshold above every
  experience of the current level and not an amount of experience remaining; the
  current level is entered 100 points below it.
\<close>

theorem calculateNextLevelXP_threshold:
  assumes "1 \<le> lvl"
  shows "calculateNextLevelXP lvl = lvl * 100 \<and>
         calculateLevel (calculateNextLevelXP lvl) = lvl + 1 \<and>
         levelEnteredAt (lvl + 1) (calculateNextLevelXP lvl) \<and>
         levelEnteredAt lvl (calculateNextLevelXP lvl - 100) \<and>
         (\<forall>xp. calculateLevel xp = lvl \<longrightarrow> xp < calculateNextLevelXP lvl)"
  by (auto simp: levelEnteredAt_def calculateLevel_div calculateNextLevelXP_def)

theorem calculateNextLevelXP_threshold_witness:
  "(1::int) \<le> 3 \<and> calculateNextLevelXP 3 = 3 * 100 \<and>
   calculateLevel (calculateNextLevelXP 3) = 3 + 1 \<and>
   levelEnteredAt (3 + 1) (calculateNextLevelXP 3) \<and>
   levelEnteredAt 3 (calculateNextLevelXP 3 - 100) \<and>
   calculateLevel 250 = 3 \<and> (250::int) < calculateNextLevelXP 3"
proof -
  have h: "(1::int) \<le> 3" by simp
  have l: "calculateLevel 250 = 3" by (simp add: calculateLevel_div)
  from calculateNextLevelXP_threshold[OF h] l h show ?thesis by blast
qed

section \<open>Normal operation\<close>

lemma bnd_Inr: "f w = (Inr v, w1) \<Longrightarrow> bnd f g w = g v w1"
  by (simp add: bnd_def)

lemma readStats_normal: "normal uid r w \<Longrightarrow> readStats cat w = (Inr (statsOfRow cat r), w)"
  by (simp add: normal_def readStats_def getUserStats_def store_select_def statsOfRow_def Let_def)

lemma getUserStats_normal: "normal uid r w \<Longrightarrow> getUserStats cat w = (statsOfRow cat r, w)"
  by (simp add: normal_def getUserStats_def store_select_def statsOfRow_def Let_def)

lemma normal_commit: "normal uid r w \<Longrightarrow> normal uid r' (commit uid r' lg w)"
  by (simp add: normal_def commit_def)

lemma commit_commit: "commit uid r2 l2 (commit uid r1 l1 w) = commit uid r2 (l1 @ l2) w"
  by (simp add: commit_def)

lemma commit_same: "normal uid r w \<Longrightarrow> commit uid r [] w = w"
  by (simp add: normal_def commit_def map_upd_triv)

lemma commit_env [simp]:
  "clock_hour (commit uid r lg w) = clock_hour w"
  "clock_iso (commit uid r lg w) = clock_iso w"
  "current_user (commit uid r lg w) = current_user w"
  "user_stats (commit uid r lg w) uid = Some r"
  "write_log (commit uid r lg w) = write_log w @ lg"
  by (simp_all add: commit_def)

lemma updateUserStats_normal:
  "normal uid r w \<Longrightarrow>
   updateUserStats u w =
     (Inr (), commit uid (apply_update (buildUpdateData u (clock_iso w)) r)
                [(uid, buildUpdateData u (clock_iso w), None)] w)"
  by (simp add: normal_def updateUserStats_def store_update_def commit_def Let_def)

lemma bnd_readStats_normal:
  "normal uid r w \<Longrightarrow> bnd (readStats cat) g w = g (statsOfRow cat r) w"
  by (simp add: bnd_def readStats_normal)

lemma bnd_updateUserStats_normal:
  "normal uid r w \<Longrightarrow>
   bnd (updateUserStats u) g w =
     g () (commit uid (apply_update (buildUpdateData u (clock_iso w)) r)
                [(uid, buildUpdateData u (clock_iso w), None)] w)"
  by (simp add: bnd_def updateUserStats_normal)

lemma evolved_normal: "normal uid r w \<Longrightarrow> evolved uid r' w w' \<Longrightarrow> normal uid r' w'"
  by (auto simp: evolved_def normal_commit)

lemma evolved_trans: "evolved uid r1 w w1 \<Longrightarrow> evolved uid r2 w1 w2 \<Longrightarrow> evolved uid r2 w w2"
  by (auto simp: evolved_def commit_commit)

lemma evolved_refl: "normal uid r w \<Longrightarrow> evolved uid r w w"
  unfolding evolved_def using commit_same by metis

lemma evolved_commit: "evolved uid r w (commit uid r lg w)"
  by (auto simp: evolved_def)

lemma evolved_env:
  "evolved uid r w w' \<Longrightarrow> clock_hour w' = clock_hour w \<and> clock_iso w' = clock_iso w"
  by (auto simp: evolved_def)

lemma addExperience_normal:
  assumes "normal uid r w"
  shows "\<exists>w'. addExperience cat n w =
           (Inr ((statsOfRow cat r)\<lparr>experience := experience_points r + n,
                   level := calculateLevel (experience_points r + n),
                   nextLevelXP := calculateNextLevelXP (calculateLevel (experience_points r + n))\<rparr>),
            w') \<and> evolved uid (gainRow n r) w w'"
proof -
  let ?u = "noUpdates\<lparr>upd_experience := Some (experience_points r + n)\<rparr>"
  have a: "apply_update (buildUpdateData ?u (clock_iso w)) r = gainRow n r"
    by (simp add: apply_update_def buildUpdateData_def noUpdates_def emptyUpdateData_def gainRow_def Let_def)
  have e: "experience (statsOfRow cat r) = experience_points r"
    by (simp add: statsOfRow_def)
  show ?thesis
    unfolding addExperience_def
    by (simp add: bnd_readStats_normal[OF assms] Let_def e
        bnd_updateUserStats_normal[OF assms] a ret_def evolved_commit)
qed

lemma list_ex_stored:
  "list_ex (\<lambda>b. stored_id b = i) (case badges_unlocked r of None \<Rightarrow> [] | Some bs \<Rightarrow> bs)
     \<longleftrightarrow> i \<in> storedIds r"
  by (cases "badges_unlocked r") (auto simp: storedIds_def list_ex_iff)

lemma badges_statsOfRow:
  "badges (statsOfRow cat r) = map (\<lambda>b. b\<lparr>unlocked := badge_id b \<in> storedIds r\<rparr>) cat"
  by (simp add: statsOfRow_def list_ex_stored)

lemma other_statsOfRow:
  "experience (statsOfRow cat r) = experience_points r"
  "level (statsOfRow cat r) = row_level r"
  "topicsExplored (statsOfRow cat r) = topicsOf r"
  "messagesCount (statsOfRow cat r) = total_messages r"
  "nextLevelXP (statsOfRow cat r) = calculateNextLevelXP (row_level r)"
  by (simp_all add: statsOfRow_def topicsOf_def)

lemma badgeIds_statsOfRow: "badgeIds (badges (statsOfRow cat r)) = badgeIds cat"
  by (auto simp: badgeIds_def badges_statsOfRow image_iff)

lemma storedIds_unlockRow:
  "storedIds (unlockRow cat bid now r) = (storedIds r \<union> {bid}) \<inter> badgeIds cat"
proof -
  have "storedIds (unlockRow cat bid now r) =
        badge_id ` {b \<in> set (map (\<lambda>b. if badge_id b = bid then b\<lparr>unlocked := True\<rparr> else b)
                      (badges (statsOfRow cat r))). unlocked b}"
    by (simp add: storedIds_def unlockRow_def image_image)
  also have "\<dots> = (storedIds r \<union> {bid}) \<inter> badgeIds cat"
    unfolding badges_statsOfRow badgeIds_def
    by (rule set_eqI) (fastforce simp: image_iff)
  finally show ?thesis .
qed

lemma storedIds_gainRow [simp]: "storedIds (gainRow n r) = storedIds r"
  by (simp add: storedIds_def gainRow_def)

lemma find_badge_None:
  "find (\<lambda>b. badge_id b = bid) bs = None \<longleftrightarrow> bid \<notin> badgeIds bs"
  by (auto simp: find_None_iff badgeIds_def)

lemma find_badge_Some:
  "find (\<lambda>b. badge_id b = bid) bs = Some b \<Longrightarrow> b \<in> set bs \<and> badge_id b = bid"
  by (auto simp: find_Some_iff)

lemma unlockBadge_noop:
  assumes n: "normal uid r w"
    and "bid \<notin> badgeIds cat \<or> bid \<in> storedIds r"
  shows "unlockBadge cat bid w = (Inr False, w)"
proof (cases "find (\<lambda>b. badge_id b = bid) (badges (statsOfRow cat r))")
  case None
  then show ?thesis
    by (simp add: unlockBadge_def bnd_readStats_normal[OF n] ret_def)
next
  case (Some b)
  from find_badge_Some[OF Some] have "b \<in> set (badges (statsOfRow cat r))" "badge_id b = bid"
    by auto
  with assms(2) have "unlocked b"
    by (auto simp: badges_statsOfRow badgeIds_def)
  with Some show ?thesis
    by (simp add: unlockBadge_def bnd_readStats_normal[OF n] ret_def)
qed

lemma unlockBadge_locked:
  assumes n: "normal uid r w"
    and "bid \<in> badgeIds cat" "bid \<notin> storedIds r"
  shows "\<exists>w'. unlockBadge cat bid w = (Inr True, w') \<and>
              evolved uid (gainRow 50 (unlockRow cat bid (clock_iso w) r)) w w'"
proof -
  from assms(2) obtain b where
    f: "find (\<lambda>b. badge_id b = bid) (badges (statsOfRow cat r)) = Some b"
    by (cases "find (\<lambda>b. badge_id b = bid) (badges (statsOfRow cat r))")
       (auto simp: find_badge_None badgeIds_statsOfRow)
  from find_badge_Some[OF f] assms(3) have l: "\<not> unlocked b"
    by (auto simp: badges_statsOfRow)
  let ?bs = "map (\<lambda>b. if badge_id b = bid then b\<lparr>unlocked := True\<rparr> else b) (badges (statsOfRow cat r))"
  let ?u = "noUpdates\<lparr>upd_badges := Some ?bs\<rparr>"
  let ?r1 = "unlockRow cat bid (clock_iso w) r"
  let ?w1 = "commit uid ?r1 [(uid, buildUpdateData ?u (clock_iso w), None)] w"
  have a: "apply_update (buildUpdateData ?u (clock_iso w)) r = ?r1"
    by (simp add: apply_update_def buildUpdateData_def noUpdates_def emptyUpdateData_def unlockRow_def Let_def)
  have n1: "normal uid ?r1 ?w1"
    by (rule normal_commit[OF n])
  from addExperience_normal[OF n1, of cat 50] obtain s w2 where
    x: "addExperience cat 50 ?w1 = (Inr s, w2)" and e: "evolved uid (gainRow 50 ?r1) ?w1 w2"
    by blast
  have "unlockBadge cat bid w = (Inr True, w2)"
    by (simp add: unlockBadge_def bnd_readStats_normal[OF n] f l Let_def
        bnd_updateUserStats_normal[OF n] a bnd_Inr[of "addExperience cat 50", OF x] ret_def)
  moreover have "evolved uid (gainRow 50 ?r1) w w2"
    using evolved_trans[OF evolved_commit e] .
  ultimately show ?thesis by blast
qed

lemma topics_statsOfRow: "topicsExplored (statsOfRow cat r) = topicsOf r"
  by (simp add: other_statsOfRow)

lemma unlockBadge_normal:
  assumes n: "normal uid r w"
  shows "\<exists>v w'. unlockBadge cat bid w = (Inr v, w') \<and>
                evolved uid (tryUnlock cat bid (clock_iso w) r) w w'"
proof (cases "bid \<in> badgeIds cat \<and> bid \<notin> storedIds r")
  case True
  with unlockBadge_locked[OF n, of bid cat] show ?thesis
    by (auto simp: tryUnlock_def)
next
  case False
  then have "unlockBadge cat bid w = (Inr False, w)"
    using unlockBadge_noop[OF n, of bid cat] by blast
  with False evolved_refl[OF n] show ?thesis
    by (auto simp: tryUnlock_def)
qed

lemma addExploredTopic_noop:
  assumes n: "normal uid r w" and "t \<in> set (topicsOf r)"
  shows "addExploredTopic cat t w = (Inr (), w)"
  using assms(2)
  by (simp add: addExploredTopic_def bnd_readStats_normal[OF n] topics_statsOfRow ret_def)

lemma addExploredTopic_normal:
  assumes n: "normal uid r w"
  shows "\<exists>w'. addExploredTopic cat t w = (Inr (), w') \<and>
              evolved uid (topicRow cat (clock_iso w) t r) w w'"
proof (cases "t \<in> set (topicsOf r)")
  case True
  with addExploredTopic_noop[OF n True] evolved_refl[OF n] show ?thesis
    by (auto simp: topicRow_def)
next
  case False
  let ?ts = "topicsOf r @ [t]"
  let ?u = "noUpdates\<lparr>upd_topicsExplored := Some ?ts\<rparr>"
  let ?r1 = "r\<lparr>topics_explored := Some ?ts\<rparr>"
  let ?w1 = "commit uid ?r1 [(uid, buildUpdateData ?u (clock_iso w), None)] w"
  have a: "apply_update (buildUpdateData ?u (clock_iso w)) r = ?r1"
    by (simp add: apply_update_def buildUpdateData_def noUpdates_def emptyUpdateData_def Let_def)
  have n1: "normal uid ?r1 ?w1"
    by (rule normal_commit[OF n])
  have step: "addExploredTopic cat t w =
      (if length ?ts \<ge> 3 then bnd (unlockBadge cat ''explorer'') (\<lambda>_. ret ()) else ret ()) ?w1"
    using False
    by (simp add: addExploredTopic_def bnd_readStats_normal[OF n] topics_statsOfRow Let_def
        bnd_updateUserStats_normal[OF n] a)
  show ?thesis
  proof (cases "length (topicsOf r) + 1 \<ge> 3")
    case True
    from unlockBadge_normal[OF n1, of cat "''explorer''"] obtain v w2 where
      u: "unlockBadge cat ''explorer'' ?w1 = (Inr v, w2)"
      and e: "evolved uid (tryUnlock cat ''explorer'' (clock_iso ?w1) ?r1) ?w1 w2"
      by blast
    have "bnd (unlockBadge cat ''explorer'') (\<lambda>_. ret ()) ?w1 = (Inr (), w2)"
      using u by (simp add: bnd_def ret_def)
    then have "addExploredTopic cat t w = (Inr (), w2)"
      using True step by simp
    moreover have "evolved uid (topicRow cat (clock_iso w) t r) w w2"
      using evolved_trans[OF evolved_commit e] True False
      by (simp add: topicRow_def Let_def)
    ultimately show ?thesis by blast
  next
    case F2: False
    have "addExploredTopic cat t w = (Inr (), ?w1)"
      using F2 step by (simp add: ret_def)
    moreover have "evolved uid (topicRow cat (clock_iso w) t r) w ?w1"
      using F2 False evolved_commit[of uid ?r1 w] by (simp add: topicRow_def Let_def)
    ultimately show ?thesis by blast
  qed
qed

lemma unlockBadge_unit_normal:
  assumes n: "normal uid r w"
  shows "\<exists>w'. bnd (unlockBadge cat bid) (\<lambda>_. ret ()) w = (Inr (), w') \<and>
              evolved uid (tryUnlock cat bid (clock_iso w) r) w w'"
proof -
  from unlockBadge_normal[OF n, of cat bid] obtain v w' where
    "unlockBadge cat bid w = (Inr v, w')"
    "evolved uid (tryUnlock cat bid (clock_iso w) r) w w'"
    by blast
  then show ?thesis by (auto simp: bnd_def ret_def)
qed

lemma incrementMessageCount_normal:
  assumes n: "normal uid r w"
  shows "\<exists>w'. incrementMessageCount cat w = (Inr (), w') \<and>
              evolved uid (messageRow cat (clock_iso w) (clock_hour w) r) w w'"
proof -
  let ?now = "clock_iso w"
  let ?u = "noUpdates\<lparr>upd_messagesCount := Some (total_messages r + 1)\<rparr>"
  let ?r1 = "r\<lparr>total_messages := total_messages r + 1, last_message_at := Some ?now\<rparr>"
  let ?w1 = "commit uid ?r1 [(uid, buildUpdateData ?u ?now, None)] w"
  let ?r2 = "gainRow 10 ?r1"
  let ?r3 = "if total_messages r + 1 = 1 then tryUnlock cat ''freshman'' ?now ?r2 else ?r2"
  let ?r4 = "if clock_hour w \<ge> 22 \<or> clock_hour w < 6 then tryUnlock cat ''night_owl'' ?now ?r3 else ?r3"
  let ?first = "if total_messages r + 1 = 1
                then bnd (unlockBadge cat ''freshman'') (\<lambda>_. ret ()) else ret ()"
  let ?night = "\<lambda>w. let hour = clock_hour w
                in (if hour \<ge> 22 \<or> hour < 6
                    then bnd (unlockBadge cat ''night_owl'') (\<lambda>_. ret ())
                    else ret ()) w"
  have a: "apply_update (buildUpdateData ?u ?now) r = ?r1"
    by (simp add: apply_update_def buildUpdateData_def noUpdates_def emptyUpdateData_def Let_def)
  have n1: "normal uid ?r1 ?w1"
    by (rule normal_commit[OF n])
  from addExperience_normal[OF n1, of cat 10] obtain s w2 where
    x: "addExperience cat 10 ?w1 = (Inr s, w2)" and e2: "evolved uid ?r2 ?w1 w2"
    by blast
  have n2: "normal uid ?r2 w2" by (rule evolved_normal[OF n1 e2])
  have c2: "clock_iso w2 = ?now" "clock_hour w2 = clock_hour w"
    using evolved_env[OF e2] by simp_all
  have "\<exists>w3. ?first w2 = (Inr (), w3) \<and> evolved uid ?r3 w2 w3"
    using unlockBadge_unit_normal[OF n2, of cat "''freshman''"] evolved_refl[OF n2] c2
    by (auto simp: ret_def)
  then obtain w3 where f: "?first w2 = (Inr (), w3)" and e3: "evolved uid ?r3 w2 w3"
    by blast
  have n3: "normal uid ?r3 w3" by (rule evolved_normal[OF n2 e3])
  have c3: "clock_iso w3 = ?now" "clock_hour w3 = clock_hour w"
    using evolved_env[OF e3] c2 by simp_all
  have "\<exists>w4. ?night w3 = (Inr (), w4) \<and> evolved uid ?r4 w3 w4"
    using unlockBadge_unit_normal[OF n3, of cat "''night_owl''"] evolved_refl[OF n3] c3
    by (auto simp: ret_def Let_def)
  then obtain w4 where g: "?night w3 = (Inr (), w4)" and e4: "evolved uid ?r4 w3 w4"
    by blast
  have "incrementMessageCount cat w = bnd (addExperience cat 10) (\<lambda>_. bnd ?first (\<lambda>_. ?night)) ?w1"
    unfolding incrementMessageCount_def
    by (subst bnd_readStats_normal[OF n])
       (simp add: Let_def bnd_updateUserStats_normal[OF n] a other_statsOfRow)
  also have "\<dots> = bnd ?first (\<lambda>_. ?night) w2"
    using x by (simp add: bnd_def)
  also have "\<dots> = ?night w3"
    using f by (simp add: bnd_def)
  finally have res: "incrementMessageCount cat w = (Inr (), w4)"
    using g by simp
  have eq: "messageRow cat ?now (clock_hour w) r = ?r4"
    by (simp add: messageRow_def Let_def)
  have ev: "evolved uid (messageRow cat ?now (clock_hour w) r) w w4"
    unfolding eq
    by (rule evolved_trans[OF evolved_trans[OF evolved_trans[OF evolved_commit e2] e3] e4])
  show ?thesis
    by (rule exI[of _ w4]) (simp only: res ev simp_thms)
qed

lemma addExploredTopics_normal:
  "normal uid r w \<Longrightarrow>
   \<exists>w'. addExploredTopics cat ts w = (Inr (), w') \<and>
        evolved uid (fold (topicRow cat (clock_iso w)) ts r) w w'"
proof (induction ts arbitrary: r w)
  case Nil
  then show ?case by (simp add: ret_def evolved_refl)
next
  case (Cons t ts)
  from addExploredTopic_normal[OF Cons.prems, of cat t] obtain w1 where
    a: "addExploredTopic cat t w = (Inr (), w1)"
    and e1: "evolved uid (topicRow cat (clock_iso w) t r) w w1"
    by blast
  have n1: "normal uid (topicRow cat (clock_iso w) t r) w1"
    by (rule evolved_normal[OF Cons.prems e1])
  have c1: "clock_iso w1 = clock_iso w"
    using evolved_env[OF e1] by simp
  from Cons.IH[OF n1] obtain w2 where
    b: "addExploredTopics cat ts w1 = (Inr (), w2)"
    and e2: "evolved uid (fold (topicRow cat (clock_iso w)) ts (topicRow cat (clock_iso w) t r)) w1 w2"
    unfolding c1 by blast
  have "addExploredTopics cat (t # ts) w = (Inr (), w2)"
    using a b by (simp add: bnd_def)
  moreover have "evolved uid (fold (topicRow cat (clock_iso w)) (t # ts) r) w w2"
    using evolved_trans[OF e1 e2] by simp
  ultimately show ?case by blast
qed

lemma filterNewBadges_in_bounds:
  "idx + length new \<le> length old \<Longrightarrow>
   filterNewBadges old idx new = Inr (positionalDiff (drop idx old) new)"
proof (induction new arbitrary: idx)
  case Nil
  then show ?case by (simp add: positionalDiff_def)
next
  case (Cons b bs)
  then have i: "idx < length old" and "(idx + 1) + length bs \<le> length old"
    by simp_all
  from Cons.IH[OF this(2)] have
    ih: "filterNewBadges old (Suc idx) bs = Inr (positionalDiff (drop (Suc idx) old) bs)"
    by simp
  have d: "drop idx old = old ! idx # drop (Suc idx) old"
    using i by (simp add: Cons_nth_drop_Suc)
  show ?case
    using i by (simp add: ih d positionalDiff_def)
qed

lemma snapshots_diff:
  "filterNewBadges (badges (statsOfRow cat r)) 0 (badges (statsOfRow cat r')) =
     Inr (positionalDiff (badges (statsOfRow cat r)) (badges (statsOfRow cat r')))"
  using filterNewBadges_in_bounds[of 0 "badges (statsOfRow cat r')" "badges (statsOfRow cat r)"]
  by (simp add: badges_statsOfRow)

lemma positionalDiff_map:
  "positionalDiff (map f xs) (map g xs) =
     map g (filter (\<lambda>b. unlocked (g b) \<and> \<not> unlocked (f b)) xs)"
  by (induction xs) (simp_all add: positionalDiff_def)

lemma snapshots_positionalDiff:
  "positionalDiff (badges (statsOfRow cat r)) (badges (statsOfRow cat r')) =
     map (\<lambda>b. b\<lparr>unlocked := True\<rparr>)
       (filter (\<lambda>b. badge_id b \<in> storedIds r' \<and> badge_id b \<notin> storedIds r) cat)"
  by (simp add: badges_statsOfRow positionalDiff_map cong: map_cong)

lemma badgeIds_snapshots_diff:
  "badgeIds (positionalDiff (badges (statsOfRow cat r)) (badges (statsOfRow cat r'))) =
     (storedIds r' - storedIds r) \<inter> badgeIds cat"
  by (auto simp: snapshots_positionalDiff badgeIds_def image_iff)

lemma processUserInteraction_normal:
  assumes n: "normal uid r w"
    and r2_def: "r2 = processRow cat (clock_iso w) (clock_hour w) ts r"
  shows "\<exists>w'. processUserInteraction cat m ts w =
           (Inr (positionalDiff (badges (statsOfRow cat r)) (badges (statsOfRow cat r2)),
                 row_level r2 > row_level r), w') \<and>
         evolved uid (if row_level r2 \<ge> 5 then tryUnlock cat ''scholar'' (clock_iso w) r2 else r2) w w'"
proof -
  let ?now = "clock_iso w"
  let ?r1 = "messageRow cat ?now (clock_hour w) r"
  from incrementMessageCount_normal[OF n, of cat] obtain w1 where
    a: "incrementMessageCount cat w = (Inr (), w1)" and e1: "evolved uid ?r1 w w1"
    by blast
  have n1: "normal uid ?r1 w1" by (rule evolved_normal[OF n e1])
  have c1: "clock_iso w1 = ?now" using evolved_env[OF e1] by simp
  from addExploredTopics_normal[OF n1, of cat ts] obtain w2 where
    b: "addExploredTopics cat ts w1 = (Inr (), w2)" and e2: "evolved uid r2 w1 w2"
    unfolding c1 r2_def processRow_def by blast
  have n2: "normal uid r2 w2" by (rule evolved_normal[OF n1 e2])
  have c2: "clock_iso w2 = ?now" using evolved_env[OF e2] c1 by simp
  let ?r3 = "if row_level r2 \<ge> 5 then tryUnlock cat ''scholar'' ?now r2 else r2"
  let ?scholar = "if row_level r2 \<ge> 5
                  then bnd (unlockBadge cat ''scholar'') (\<lambda>_. ret ()) else ret ()"
  have "\<exists>w3. ?scholar w2 = (Inr (), w3) \<and> evolved uid ?r3 w2 w3"
    using unlockBadge_unit_normal[OF n2, of cat "''scholar''"] evolved_refl[OF n2] c2
    by (auto simp: ret_def)
  then obtain w3 where s: "?scholar w2 = (Inr (), w3)" and e3: "evolved uid ?r3 w2 w3"
    by blast
  let ?rest = "\<lambda>oldStats. bnd (addExploredTopics cat ts) (\<lambda>_.
     bnd (readStats cat) (\<lambda>newStats.
       let leveledUp = level newStats > level oldStats
       in case filterNewBadges (badges oldStats) 0 (badges newStats) of
            Inl e \<Rightarrow> throw e
          | Inr newBadges \<Rightarrow>
              bnd (if level newStats \<ge> 5
                   then bnd (unlockBadge cat ''scholar'') (\<lambda>_. ret ())
                   else ret ()) (\<lambda>_.
              ret (newBadges, leveledUp))))"
  have "processUserInteraction cat m ts w = bnd (incrementMessageCount cat) (\<lambda>_. ?rest (statsOfRow cat r)) w"
    unfolding processUserInteraction_def
    by (subst bnd_readStats_normal[OF n]) (simp add: other_statsOfRow)
  also have "\<dots> = ?rest (statsOfRow cat r) w1"
    using a by (simp add: bnd_def)
  also have "\<dots> = bnd ?scholar (\<lambda>_. ret (positionalDiff (badges (statsOfRow cat r)) (badges (statsOfRow cat r2)),
                 row_level r2 > row_level r)) w2"
    using b readStats_normal[OF n2, of cat]
    by (simp add: bnd_def snapshots_diff other_statsOfRow)
  also have "\<dots> = (Inr (positionalDiff (badges (statsOfRow cat r)) (badges (statsOfRow cat r2)),
                 row_level r2 > row_level r), w3)"
    using s by (simp add: bnd_def ret_def)
  finally have res: "processUserInteraction cat m ts w =
     (Inr (positionalDiff (badges (statsOfRow cat r)) (badges (statsOfRow cat r2)),
                 row_level r2 > row_level r), w3)" .
  have ev: "evolved uid ?r3 w w3"
    by (rule evolved_trans[OF evolved_trans[OF e1 e2] e3])
  show ?thesis
    by (rule exI[of _ w3]) (simp only: res ev simp_thms)
qed

section \<open>Unlocking a badge\<close>

lemma badgeState_statsOfRow:
  "badgeState bid (badges (statsOfRow cat r)) =
     (if bid \<in> badgeIds cat then Some (bid \<in> storedIds r) else None)"
proof (cases "find (\<lambda>b. badge_id b = bid) (badges (statsOfRow cat r))")
  case None
  then show ?thesis
    by (simp add: badgeState_def find_badge_None badgeIds_statsOfRow)
next
  case (Some b)
  from find_badge_Some[OF Some] have "b \<in> set (badges (statsOfRow cat r))" "badge_id b = bid"
    by auto
  then have "unlocked b = (bid \<in> storedIds r)" "bid \<in> badgeIds cat"
    by (auto simp: badges_statsOfRow badgeIds_def)
  with Some show ?thesis by (simp add: badgeState_def)
qed


lemma getUserStats_keeps:
  "getUserStats cat w = (s, w0) \<Longrightarrow> user_stats w0 = user_stats w \<and> write_log w0 = write_log w"
  by (auto simp: getUserStats_def store_select_def split: option.splits list.splits prod.splits if_splits)

lemma experience_gainRow: "experience_points (gainRow n r) = experience_points r + n"
  by (simp add: gainRow_def)

lemma fields_unlockRow:
  "experience_points (unlockRow cat bid now r) = experience_points r"
  "row_level (unlockRow cat bid now r) = row_level r"
  "total_messages (unlockRow cat bid now r) = total_messages r"
  "topicsOf (unlockRow cat bid now r) = topicsOf r"
  by (simp_all add: unlockRow_def topicsOf_def)

lemma fields_gainRow:
  "total_messages (gainRow n r) = total_messages r"
  "topicsOf (gainRow n r) = topicsOf r"
  "row_level (gainRow n r) = calculateLevel (experience_points r + n)"
  by (simp_all add: gainRow_def topicsOf_def)

lemma evolved_row: "evolved uid r w w' \<Longrightarrow> user_stats w' uid = Some r"
  by (auto simp: evolved_def)

lemma normal_worldOf: "normal ''u1'' r (worldOf (Some ''u1'') r)"
  by (simp add: normal_def worldOf_def)

lemma getUserStats_worldOf:
  "getUserStats cat (worldOf (Some ''u1'') r) = (statsOfRow cat r, worldOf (Some ''u1'') r)"
  by (rule getUserStats_normal[OF normal_worldOf])

lemma storedIds_freshRow: "storedIds freshRow = {}"
  by (simp add: storedIds_def freshRow_def)

lemma badgeIds_demoBadges:
  "badgeIds demoBadges = {''freshman'', ''explorer'', ''scholar'', ''night_owl''}"
  by (simp add: badgeIds_def demoBadges_def)




section \<open>Exploring topics\<close>

lemma topicsOf_tryUnlock: "topicsOf (tryUnlock cat bid now r) = topicsOf r"
  by (simp add: tryUnlock_def fields_unlockRow fields_gainRow)

lemma storedIds_tryUnlock:
  "x \<in> badgeIds cat \<Longrightarrow>
   x \<in> storedIds (tryUnlock cat bid now r) \<longleftrightarrow> x \<in> storedIds r \<or> x = bid"
  by (auto simp: tryUnlock_def storedIds_unlockRow)

lemma topicsOf_set: "topicsOf (r\<lparr>topics_explored := Some ts\<rparr>) = ts"
  by (simp add: topicsOf_def)

lemma storedIds_topics: "storedIds (r\<lparr>topics_explored := x\<rparr>) = storedIds r"
  by (simp add: storedIds_def)

lemma topicsOf_topicRow:
  "topicsOf (topicRow cat now t r) =
     (if t \<in> set (topicsOf r) then topicsOf r else topicsOf r @ [t])"
  by (simp add: topicRow_def Let_def topicsOf_tryUnlock topicsOf_set)

lemma storedIds_topicRow:
  "x \<in> badgeIds cat \<Longrightarrow>
   x \<in> storedIds (topicRow cat now t r) \<longleftrightarrow>
     x \<in> storedIds r \<or> (x = ''explorer'' \<and> t \<notin> set (topicsOf r) \<and> 3 \<le> length (topicsOf r) + 1)"
  by (auto simp: topicRow_def Let_def storedIds_tryUnlock storedIds_topics)

lemma badgeState_after:
  assumes "normal uid r w" "evolved uid r' w w'"
  shows "badgeState bid (badges (fst (getUserStats cat w'))) =
           (if bid \<in> badgeIds cat then Some (bid \<in> storedIds r') else None)"
  using getUserStats_normal[OF evolved_normal[OF assms]]
  by (simp add: badgeState_statsOfRow)

lemma addExploredTopic_known:
  "addExploredTopic cat t w =
     (case getUserStats cat w of (s, w0) \<Rightarrow>
        if t \<in> set (topicsExplored s) then (Inr (), w0)
        else bnd (updateUserStats (noUpdates\<lparr>upd_topicsExplored := Some (topicsExplored s @ [t])\<rparr>))
               (\<lambda>_. if length (topicsExplored s @ [t]) \<ge> 3
                     then bnd (unlockBadge cat ''explorer'') (\<lambda>_. ret ())
                     else ret ()) w0)"
  by (auto simp: addExploredTopic_def bnd_def readStats_def ret_def Let_def split: prod.splits)

lemma explorerAfter_normal:
  assumes n: "normal uid r w"
  shows "explorerAfter cat ts w =
     (if ''explorer'' \<in> badgeIds cat
      then Some (''explorer'' \<in> storedIds (fold (topicRow cat (clock_iso w)) ts r)) else None)"
proof -
  from addExploredTopics_normal[OF n, of cat ts] obtain w' where
    "addExploredTopics cat ts w = (Inr (), w')"
    "evolved uid (fold (topicRow cat (clock_iso w)) ts r) w w'"
    by blast
  then show ?thesis
    using badgeState_after[OF n, of _ w' "''explorer''" cat]
    by (simp add: explorerAfter_def)
qed

text \<open>
  Claim C3, as stated, fails: with explorer locked and fewer than three topics stored,
  the calls for \<open>a\<close> and \<open>b\<close> may already unlock explorer. Here one topic
  \<open>x\<close> is stored, so \<open>b\<close> is the third distinct topic. Nor does every starting
  progress with explorer locked and no topics see explorer unlocked at \<open>c\<close>: for a
  signed-in user \<open>u2\<close> who has no stored row the four calls succeed, store nothing
  and leave explorer locked; when the read of the call for \<open>c\<close> fails, \<open>c\<close> is
  taken for the first topic and explorer stays locked; for a guest the first call throws.
\<close>

theorem explorer_before_third_call_counterexample:
  "badgeState ''explorer'' (badges (fst (getUserStats demoBadges
      (worldOf (Some ''u1'') (freshRow\<lparr>topics_explored := Some [''x'']\<rparr>))))) = Some False \<and>
   length (topicsExplored (fst (getUserStats demoBadges
      (worldOf (Some ''u1'') (freshRow\<lparr>topics_explored := Some [''x'']\<rparr>))))) = 1 \<and>
   explorerAfter demoBadges [''a'', ''b'']
      (worldOf (Some ''u1'') (freshRow\<lparr>topics_explored := Some [''x'']\<rparr>)) = Some True \<and>
   current_user (worldOf (Some ''u2'') freshRow) = Some ''u2'' \<and>
   user_stats (worldOf (Some ''u2'') freshRow) ''u2'' = None \<and>
   badgeState ''explorer''
      (badges (fst (getUserStats demoBadges (worldOf (Some ''u2'') freshRow)))) = Some False \<and>
   topicsExplored (fst (getUserStats demoBadges (worldOf (Some ''u2'') freshRow))) = [] \<and>
   fst (addExploredTopics demoBadges [''a'', ''b'', ''a'', ''c'']
      (worldOf (Some ''u2'') freshRow)) = Inr () \<and>
   explorerAfter demoBadges [''a'', ''b'', ''a'', ''c''] (worldOf (Some ''u2'') freshRow) =
      Some False \<and>
   topicsExplored (fst (getUserStats demoBadges (snd (addExploredTopics demoBadges
      [''a'', ''b'', ''a'', ''c''] (worldOf (Some ''u2'') freshRow))))) = [] \<and>
   badgeState ''explorer'' (badges (fst (getUserStats demoBadges
      ((worldOf (Some ''u1'') freshRow)\<lparr>read_faults := [False, False, False, True]\<rparr>)))) =
      Some False \<and>
   topicsExplored (fst (getUserStats demoBadges
      ((worldOf (Some ''u1'') freshRow)\<lparr>read_faults := [False, False, False, True]\<rparr>))) = [] \<and>
   fst (addExploredTopics demoBadges [''a'', ''b'', ''a'', ''c'']
      ((worldOf (Some ''u1'') freshRow)\<lparr>read_faults := [False, False, False, True]\<rparr>)) = Inr () \<and>
   explorerAfter demoBadges [''a'', ''b'', ''a'', ''c'']
      ((worldOf (Some ''u1'') freshRow)\<lparr>read_faults := [False, False, False, True]\<rparr>) = Some False \<and>
   fst (addExploredTopics demoBadges [''a'', ''b'', ''a'', ''c''] (worldOf None freshRow)) =
      Inl (Error ''User not authenticated'')"
  by code_simp

text \<open>
  Claim C3, amended. In any world \<^verbatim>\<open>addExploredTopic\<close> does nothing (no store write,
  no badge effect) when the topic is already present in the progress just read, by exact
  match. For a signed-in user whose progress row is stored, when no store read and no
  store write fails (\<open>normal\<close>), a new topic is appended, and explorer is unlocked
  after the call exactly if it was unlocked before or it was locked and the list now
  holds three topics or more. For such a user with explorer locked and no topics stored,
  the calls for \<open>a\<close>, \<open>b\<close>, \<open>a\<close>, \<open>c\<close> unlock explorer only at \<open>c\<close>;
  the repeated \<open>a\<close> changes nothing.
\<close>

theorem addExploredTopic_explorer:
  "(\<forall>s w0. getUserStats cat w = (s, w0) \<and> t \<in> set (topicsExplored s) \<longrightarrow>
      addExploredTopic cat t w = (Inr (), w0) \<and>
      user_stats w0 = user_stats w \<and> write_log w0 = write_log w) \<and>
   (normal uid r w \<and> t \<notin> set (topicsExplored (fst (getUserStats cat w))) \<longrightarrow>
      (\<exists>w1. addExploredTopic cat t w = (Inr (), w1) \<and>
         topicsExplored (fst (getUserStats cat w1)) =
           topicsExplored (fst (getUserStats cat w)) @ [t] \<and>
         (badgeState ''explorer'' (badges (fst (getUserStats cat w1))) = Some True \<longleftrightarrow>
            badgeState ''explorer'' (badges (fst (getUserStats cat w))) = Some True \<or>
            (badgeState ''explorer'' (badges (fst (getUserStats cat w))) = Some False \<and>
             3 \<le> length (topicsExplored (fst (getUserStats cat w))) + 1)))) \<and>
   (normal uid r w \<and> topicsExplored (fst (getUserStats cat w)) = [] \<and>
    badgeState ''explorer'' (badges (fst (getUserStats cat w))) = Some False \<longrightarrow>
      explorerAfter cat [''a''] w = Some False \<and>
      explorerAfter cat [''a'', ''b''] w = Some False \<and>
      explorerAfter cat [''a'', ''b'', ''a''] w = Some False \<and>
      snd (addExploredTopics cat [''a'', ''b'', ''a''] w) = snd (addExploredTopics cat [''a'', ''b''] w) \<and>
      explorerAfter cat [''a'', ''b'', ''a'', ''c''] w = Some True)"
proof (intro conjI allI impI)
  fix s w0
  assume a: "getUserStats cat w = (s, w0) \<and> t \<in> set (topicsExplored s)"
  then show "addExploredTopic cat t w = (Inr (), w0)"
    by (simp add: addExploredTopic_known)
  from a getUserStats_keeps[of cat w s w0]
  show "user_stats w0 = user_stats w" "write_log w0 = write_log w"
    by simp_all
next
  assume a: "normal uid r w \<and> t \<notin> set (topicsExplored (fst (getUserStats cat w)))"
  then have n: "normal uid r w" by simp
  from a have t: "t \<notin> set (topicsOf r)"
    by (simp add: getUserStats_normal[OF n] other_statsOfRow)
  let ?r1 = "topicRow cat (clock_iso w) t r"
  from addExploredTopic_normal[OF n, of cat t] obtain w1 where
    u: "addExploredTopic cat t w = (Inr (), w1)" and e: "evolved uid ?r1 w w1"
    by blast
  have n1: "normal uid ?r1 w1" by (rule evolved_normal[OF n e])
  have "topicsExplored (fst (getUserStats cat w1)) =
           topicsExplored (fst (getUserStats cat w)) @ [t] \<and>
         (badgeState ''explorer'' (badges (fst (getUserStats cat w1))) = Some True \<longleftrightarrow>
            badgeState ''explorer'' (badges (fst (getUserStats cat w))) = Some True \<or>
            (badgeState ''explorer'' (badges (fst (getUserStats cat w))) = Some False \<and>
             3 \<le> length (topicsExplored (fst (getUserStats cat w))) + 1))"
    using t
    by (auto simp: getUserStats_normal[OF n] getUserStats_normal[OF n1] other_statsOfRow
        topicsOf_topicRow badgeState_statsOfRow storedIds_topicRow)
  with u show "\<exists>w1. addExploredTopic cat t w = (Inr (), w1) \<and>
         topicsExplored (fst (getUserStats cat w1)) =
           topicsExplored (fst (getUserStats cat w)) @ [t] \<and>
         (badgeState ''explorer'' (badges (fst (getUserStats cat w1))) = Some True \<longleftrightarrow>
            badgeState ''explorer'' (badges (fst (getUserStats cat w))) = Some True \<or>
            (badgeState ''explorer'' (badges (fst (getUserStats cat w))) = Some False \<and>
             3 \<le> length (topicsExplored (fst (getUserStats cat w))) + 1))"
    by blast
next
  assume a: "normal uid r w \<and> topicsExplored (fst (getUserStats cat w)) = [] \<and>
    badgeState ''explorer'' (badges (fst (getUserStats cat w))) = Some False"
  then have n: "normal uid r w" by simp
  from a have t: "topicsOf r = []"
    by (simp add: getUserStats_normal[OF n] other_statsOfRow)
  from a have k: "''explorer'' \<in> badgeIds cat" "''explorer'' \<notin> storedIds r"
    by (auto simp: getUserStats_normal[OF n] badgeState_statsOfRow split: if_splits)
  show "explorerAfter cat [''a''] w = Some False"
    using k t by (simp add: explorerAfter_normal[OF n] storedIds_topicRow topicsOf_topicRow)
  show "explorerAfter cat [''a'', ''b''] w = Some False"
    using k t by (simp add: explorerAfter_normal[OF n] storedIds_topicRow topicsOf_topicRow)
  show "explorerAfter cat [''a'', ''b'', ''a''] w = Some False"
    using k t by (simp add: explorerAfter_normal[OF n] storedIds_topicRow topicsOf_topicRow)
  show "explorerAfter cat [''a'', ''b'', ''a'', ''c''] w = Some True"
    using k t by (simp add: explorerAfter_normal[OF n] storedIds_topicRow topicsOf_topicRow)
  show "snd (addExploredTopics cat [''a'', ''b'', ''a''] w) = snd (addExploredTopics cat [''a'', ''b''] w)"
  proof -
    from addExploredTopics_normal[OF n, of cat "[''a'', ''b'']"] obtain w2 where
      w2: "addExploredTopics cat [''a'', ''b''] w = (Inr (), w2)"
      and e2: "evolved uid (fold (topicRow cat (clock_iso w)) [''a'', ''b''] r) w w2"
      by blast
    have n2: "normal uid (fold (topicRow cat (clock_iso w)) [''a'', ''b''] r) w2"
      by (rule evolved_normal[OF n e2])
    have "''a'' \<in> set (topicsOf (fold (topicRow cat (clock_iso w)) [''a'', ''b''] r))"
      using t by (simp add: topicsOf_topicRow)
    from addExploredTopic_noop[OF n2 this, of cat]
    have noop: "addExploredTopic cat ''a'' w2 = (Inr (), w2)" .
    have split: "addExploredTopics cat ([''a'', ''b''] @ [''a'']) w =
                 bnd (addExploredTopics cat [''a'', ''b'']) (\<lambda>_. addExploredTopic cat ''a'') w"
      by (simp add: bnd_def ret_def split: prod.splits sum.splits)
    show ?thesis
      using split w2 noop by (simp add: bnd_def)
  qed
qed

theorem addExploredTopic_explorer_witness:
  "normal ''u1'' freshRow (worldOf (Some ''u1'') freshRow) \<and>
   topicsExplored (fst (getUserStats demoBadges (worldOf (Some ''u1'') freshRow))) = [] \<and>
   badgeState ''explorer'' (badges (fst (getUserStats demoBadges (worldOf (Some ''u1'') freshRow)))) = Some False \<and>
   explorerAfter demoBadges [''a''] (worldOf (Some ''u1'') freshRow) = Some False \<and>
   explorerAfter demoBadges [''a'', ''b''] (worldOf (Some ''u1'') freshRow) = Some False \<and>
   explorerAfter demoBadges [''a'', ''b'', ''a''] (worldOf (Some ''u1'') freshRow) = Some False \<and>
   explorerAfter demoBadges [''a'', ''b'', ''a'', ''c''] (worldOf (Some ''u1'') freshRow) = Some True \<and>
   ''food'' \<in> set (topicsExplored (fst (getUserStats demoBadges
      (worldOf (Some ''u1'') (freshRow\<lparr>topics_explored := Some [''food'']\<rparr>))))) \<and>
   addExploredTopic demoBadges ''food'' (worldOf (Some ''u1'') (freshRow\<lparr>topics_explored := Some [''food'']\<rparr>)) =
     (Inr (), worldOf (Some ''u1'') (freshRow\<lparr>topics_explored := Some [''food'']\<rparr>)) \<and>
   (\<exists>w1. addExploredTopic demoBadges ''Food'' (worldOf (Some ''u1'') (freshRow\<lparr>topics_explored := Some [''food'']\<rparr>)) =
      (Inr (), w1) \<and>
      topicsExplored (fst (getUserStats demoBadges w1)) = [''food'', ''Food''])"
proof -
  let ?w = "worldOf (Some ''u1'') freshRow"
  let ?r1 = "freshRow\<lparr>topics_explored := Some [''food'']\<rparr>"
  let ?w1 = "worldOf (Some ''u1'') ?r1"
  have h1: "normal ''u1'' freshRow ?w" by (rule normal_worldOf)
  have h2: "topicsExplored (fst (getUserStats demoBadges ?w)) = []"
    by (simp add: getUserStats_worldOf other_statsOfRow topicsOf_def freshRow_def)
  have h3: "badgeState ''explorer'' (badges (fst (getUserStats demoBadges ?w))) = Some False"
    by (simp add: getUserStats_worldOf badgeState_statsOfRow badgeIds_demoBadges storedIds_freshRow)
  have g1: "normal ''u1'' ?r1 ?w1" by (rule normal_worldOf)
  have g2: "topicsExplored (fst (getUserStats demoBadges ?w1)) = [''food'']"
    by (simp add: getUserStats_worldOf other_statsOfRow topicsOf_def)
  from addExploredTopic_explorer[of demoBadges ?w _ "''u1''" freshRow] h1 h2 h3
  have a: "explorerAfter demoBadges [''a''] ?w = Some False \<and>
      explorerAfter demoBadges [''a'', ''b''] ?w = Some False \<and>
      explorerAfter demoBadges [''a'', ''b'', ''a''] ?w = Some False \<and>
      explorerAfter demoBadges [''a'', ''b'', ''a'', ''c''] ?w = Some True"
    by blast
  from addExploredTopic_explorer[of demoBadges ?w1 "''food''" "''u1''" ?r1] g2
  have b: "addExploredTopic demoBadges ''food'' ?w1 = (Inr (), ?w1)"
    by (simp add: getUserStats_worldOf)
  from addExploredTopic_explorer[of demoBadges ?w1 "''Food''" "''u1''" ?r1] g1 g2
  have c: "\<exists>w1. addExploredTopic demoBadges ''Food'' ?w1 = (Inr (), w1) \<and>
      topicsExplored (fst (getUserStats demoBadges w1)) = [''food'', ''Food'']"
    by auto
  from h1 h2 h3 a b c g2 show ?thesis by simp
qed

section \<open>The first message of a fresh user\<close>

lemma fields_tryUnlock:
  "experience_points (tryUnlock cat bid now r) =
     (if bid \<in> badgeIds cat \<and> bid \<notin> storedIds r then experience_points r + 50 else experience_points r)"
  "row_level (tryUnlock cat bid now r) =
     (if bid \<in> badgeIds cat \<and> bid \<notin> storedIds r then calculateLevel (experience_points r + 50) else row_level r)"
  by (simp_all add: tryUnlock_def fields_unlockRow fields_gainRow experience_gainRow)

lemma storedIds_message: "storedIds (r\<lparr>total_messages := n, last_message_at := x\<rparr>) = storedIds r"
  by (simp add: storedIds_def)

lemma topicsOf_message: "topicsOf (r\<lparr>total_messages := n, last_message_at := x\<rparr>) = topicsOf r"
  by (simp add: topicsOf_def)

text \<open>
  Claim C1, as stated, fails: its assumptions leave store reads free to fail, and a
  failed read makes \<^verbatim>\<open>getUserStats\<close> answer the default progress. Here every write
  succeeds and it is noon, but the fifth read (the one inside the \<^verbatim>\<open>addExperience(50)\<close>
  of the freshman bonus) fails, so the bonus is added to 0 and 50 is stored.
\<close>

theorem first_message_failed_read_counterexample:
  "current_user ((worldOf (Some ''u1'') freshRow)\<lparr>read_faults := [False, False, False, False, True]\<rparr>) = Some ''u1'' \<and>
   user_stats ((worldOf (Some ''u1'') freshRow)\<lparr>read_faults := [False, False, False, False, True]\<rparr>) ''u1'' = Some freshRow \<and>
   write_faults ((worldOf (Some ''u1'') freshRow)\<lparr>read_faults := [False, False, False, False, True]\<rparr>) = [] \<and>
   clock_hour ((worldOf (Some ''u1'') freshRow)\<lparr>read_faults := [False, False, False, False, True]\<rparr>) = 12 \<and>
   map_option experience_points
     (user_stats (snd (processUserInteraction demoBadges ''hello'' [''food'', ''transit'']
        ((worldOf (Some ''u1'') freshRow)\<lparr>read_faults := [False, False, False, False, True]\<rparr>))) ''u1'')
     = Some 50"
  by code_simp

text \<open>
  Claim C1, amended. For a signed-in fresh user (stored experience 0, level 1, no
  messages, no topics, no badges), with a catalog that lists freshman, the hour outside
  22:00 to 06:00 and every store read and write succeeding, one call of
  \<^verbatim>\<open>processUserInteraction\<close> with any message text and the topics food and transit
  returns \<open>leveledUp = false\<close> and new badges that contain freshman and not explorer,
  and leaves experience 60 and level 1 in the store.
\<close>

theorem first_message_scenario:
  assumes "current_user w = Some uid" and "user_stats w uid = Some r"
    and "read_faults w = []" and "write_faults w = []"
    and "experience_points r = 0" and "row_level r = 1" and "total_messages r = 0"
    and "topicsOf r = []" and "storedIds r = {}"
    and "6 \<le> clock_hour w" and "clock_hour w < 22"
    and "''freshman'' \<in> badgeIds cat"
  shows "\<exists>newBadges w' r'.
           processUserInteraction cat messageText [''food'', ''transit''] w =
             (Inr (newBadges, False), w') \<and>
           ''freshman'' \<in> badgeIds newBadges \<and> ''explorer'' \<notin> badgeIds newBadges \<and>
           user_stats w' uid = Some r' \<and> experience_points r' = 60 \<and> row_level r' = 1"
proof -
  have n: "normal uid r w"
    using assms by (simp add: normal_def)
  let ?now = "clock_iso w"
  let ?r1 = "messageRow cat ?now (clock_hour w) r"
  let ?r2 = "processRow cat ?now (clock_hour w) [''food'', ''transit''] r"
  have m: "?r1 = tryUnlock cat ''freshman'' ?now
                   (gainRow 10 (r\<lparr>total_messages := 1, last_message_at := Some ?now\<rparr>))"
    using assms by (simp add: messageRow_def Let_def)
  have t1: "topicsOf ?r1 = []"
    using assms by (simp add: m topicsOf_tryUnlock fields_gainRow topicsOf_message)
  have s1: "storedIds ?r1 = {''freshman''}"
    using assms by (auto simp: m tryUnlock_def storedIds_unlockRow storedIds_message)
  have e1: "experience_points ?r1 = 60" "row_level ?r1 = 1"
    using assms
    by (simp_all add: m fields_tryUnlock storedIds_message experience_gainRow calculateLevel_div)
  have r2: "?r2 = ?r1\<lparr>topics_explored := Some [''food'', ''transit'']\<rparr>"
    using t1 by (simp add: processRow_def topicRow_def Let_def topicsOf_set)
  have s2: "storedIds ?r2 = {''freshman''}" and e2: "experience_points ?r2 = 60" "row_level ?r2 = 1"
    using s1 e1 by (simp_all add: r2 storedIds_topics)
  from processUserInteraction_normal[OF n refl, of cat messageText "[''food'', ''transit'']"]
  obtain w' where
    p: "processUserInteraction cat messageText [''food'', ''transit''] w =
          (Inr (positionalDiff (badges (statsOfRow cat r)) (badges (statsOfRow cat ?r2)),
                row_level r < row_level ?r2), w')"
    and e: "evolved uid (if 5 \<le> row_level ?r2
              then tryUnlock cat ''scholar'' ?now ?r2 else ?r2) w w'"
    by blast
  have "evolved uid ?r2 w w'"
    using e e2 by simp
  then have u: "user_stats w' uid = Some ?r2"
    by (rule evolved_row)
  have ids: "badgeIds (positionalDiff (badges (statsOfRow cat r)) (badges (statsOfRow cat ?r2))) =
             {''freshman''}"
    using assms s2 by (auto simp: badgeIds_snapshots_diff)
  have l: "(row_level r < row_level ?r2) = False"
    using assms e2 by simp
  show ?thesis
    using p u ids e2 unfolding l by auto
qed

theorem first_message_scenario_witness:
  "current_user (worldOf (Some ''u1'') freshRow) = Some ''u1'' \<and>
   user_stats (worldOf (Some ''u1'') freshRow) ''u1'' = Some freshRow \<and>
   read_faults (worldOf (Some ''u1'') freshRow) = [] \<and>
   write_faults (worldOf (Some ''u1'') freshRow) = [] \<and>
   clock_hour (worldOf (Some ''u1'') freshRow) = 12 \<and>
   ''freshman'' \<in> badgeIds demoBadges \<and>
   (\<exists>newBadges w' r'.
      processUserInteraction demoBadges ''hello'' [''food'', ''transit''] (worldOf (Some ''u1'') freshRow) =
        (Inr (newBadges, False), w') \<and>
      ''freshman'' \<in> badgeIds newBadges \<and> ''explorer'' \<notin> badgeIds newBadges \<and>
      user_stats w' ''u1'' = Some r' \<and> experience_points r' = 60 \<and> row_level r' = 1)"
proof -
  let ?w = "worldOf (Some ''u1'') freshRow"
  have h: "current_user ?w = Some ''u1''" "user_stats ?w ''u1'' = Some freshRow"
    "read_faults ?w = []" "write_faults ?w = []" "clock_hour ?w = 12"
    by (simp_all add: worldOf_def)
  have f: "experience_points freshRow = 0" "row_level freshRow = 1" "total_messages freshRow = 0"
    "topicsOf freshRow = []" "storedIds freshRow = {}"
    by (simp_all add: freshRow_def topicsOf_def storedIds_def)
  have b: "''freshman'' \<in> badgeIds demoBadges"
    by (simp add: badgeIds_demoBadges)
  have "6 \<le> clock_hour ?w" "clock_hour ?w < 22"
    by (simp_all add: h)
  from first_message_scenario[OF h(1-4) f this b, of "''hello''"] h b show ?thesis by blast
qed

section \<open>The scholar badge and the returned diff\<close>



lemma getUserStats_length: "length (badges (fst (getUserStats cat w))) = length cat"
  by (auto simp: getUserStats_def defaultStats_def Let_def split: option.splits prod.splits)









section \<open>Level and experience are written together\<close>

lemma preserves_ret: "preserves I (ret v)"
  by (simp add: preserves_def ret_def)

lemma preserves_throw: "preserves I (throw e)"
  by (simp add: preserves_def throw_def)

lemma preserves_bnd:
  assumes "preserves I f" and "\<And>v. preserves I (g v)"
  shows "preserves I (bnd f g)"
proof -
  have "I (snd (bnd f g w))" if "I w" for w
  proof (cases "f w")
    case (Pair r w1)
    with assms(1) that have i1: "I w1" by (auto simp: preserves_def)
    show ?thesis
    proof (cases r)
      case (Inl e)
      with Pair i1 show ?thesis by (simp add: bnd_def)
    next
      case (Inr v)
      with Pair i1 assms(2)[of v] show ?thesis by (simp add: bnd_def preserves_def)
    qed
  qed
  then show ?thesis by (simp add: preserves_def)
qed

lemma storeInvariant_read: "storeInvariant I \<Longrightarrow> preserves I (readStats cat)"
  by (simp add: storeInvariant_def)

lemma storeInvariant_update: "storeInvariant I \<Longrightarrow> preserves I (updateUserStats u)"
  by (simp add: storeInvariant_def)

lemma storeInvariant_reset: "storeInvariant I \<Longrightarrow> preserves I resetUserStats"
  by (simp add: storeInvariant_def)

lemmas preserves_basic =
  preserves_ret preserves_throw preserves_bnd storeInvariant_read storeInvariant_update

lemma preserves_addExperience: "storeInvariant I \<Longrightarrow> preserves I (addExperience cat x)"
  unfolding addExperience_def Let_def by (intro preserves_basic)

lemma preserves_unlockBadge: "storeInvariant I \<Longrightarrow> preserves I (unlockBadge cat bid)"
  unfolding unlockBadge_def Let_def
  by (intro preserves_basic, assumption)
     (simp add: preserves_basic preserves_addExperience split: option.splits)

lemma preserves_unlock_unit:
  "storeInvariant I \<Longrightarrow> preserves I (bnd (unlockBadge cat bid) (\<lambda>_. ret ()))"
  by (intro preserves_basic preserves_unlockBadge)

lemma preserves_addExploredTopic: "storeInvariant I \<Longrightarrow> preserves I (addExploredTopic cat t)"
  unfolding addExploredTopic_def Let_def
  by (intro preserves_basic, assumption) (simp add: preserves_basic preserves_unlock_unit)

lemma preserves_night_owl:
  "storeInvariant I \<Longrightarrow>
   preserves I
     (\<lambda>w. (if clock_hour w \<ge> 22 \<or> clock_hour w < 6
           then bnd (unlockBadge cat ''night_owl'') (\<lambda>_. ret ())
           else ret ()) w)"
  using preserves_unlock_unit[of I cat "''night_owl''"]
  by (simp add: preserves_def ret_def)

lemma preserves_incrementMessageCount:
  "storeInvariant I \<Longrightarrow> preserves I (incrementMessageCount cat)"
  unfolding incrementMessageCount_def Let_def
  by (intro preserves_basic preserves_addExperience preserves_night_owl, assumption+)
     (simp add: preserves_basic preserves_unlock_unit)

lemma preserves_addExploredTopics:
  "storeInvariant I \<Longrightarrow> preserves I (addExploredTopics cat ts)"
  by (induction ts) (simp_all add: preserves_basic preserves_addExploredTopic)

lemma preserves_processUserInteraction:
  "storeInvariant I \<Longrightarrow> preserves I (processUserInteraction cat m ts)"
  unfolding processUserInteraction_def Let_def
  by (intro preserves_basic preserves_incrementMessageCount preserves_addExploredTopics, assumption+)
     (simp add: preserves_basic preserves_unlock_unit split: sum.splits)

lemma preserves_generateUserContextSummary:
  "storeInvariant I \<Longrightarrow> preserves I (generateUserContextSummary cat)"
  unfolding generateUserContextSummary_def by (intro preserves_basic)

lemma preserves_run_op: "storeInvariant I \<Longrightarrow> preserves I (run_op cat op)"
  by (cases op)
     (simp_all add: preserves_basic preserves_addExperience preserves_unlockBadge
        preserves_addExploredTopic preserves_incrementMessageCount
        preserves_processUserInteraction preserves_generateUserContextSummary
        storeInvariant_reset split_def)

lemma invariant_run_ops: "storeInvariant I \<Longrightarrow> I w \<Longrightarrow> I (run_ops cat ops w)"
proof (induction ops arbitrary: w)
  case Nil
  then show ?case by simp
next
  case (Cons op ops)
  from preserves_run_op[OF Cons.prems(1), of cat op] Cons.prems(2)
  have "I (snd (run_op cat op w))"
    by (simp add: preserves_def)
  from Cons.IH[OF Cons.prems(1) this] show ?case by simp
qed

lemma levelWithExperience_build: "levelWithExperience (buildUpdateData u now)"
  by (simp add: levelWithExperience_def buildUpdateData_def emptyUpdateData_def Let_def
      calculateLevel_div split: option.splits)

lemma levelWithExperience_reset: "levelWithExperience resetData"
  by (simp add: levelWithExperience_def resetData_def)

lemma consistentRow_apply_update:
  "levelWithExperience d \<Longrightarrow> consistentRow r \<Longrightarrow> consistentRow (apply_update d r)"
  by (auto simp: levelWithExperience_def consistentRow_def apply_update_def split: option.splits)

lemma consistent_store_update:
  assumes "levelWithExperience d" and "consistent uid w"
  shows "consistent uid (snd (store_update userId d w))"
  using assms(2) consistentRow_apply_update[OF assms(1)]
  by (auto simp: consistent_def store_update_def Let_def split: option.splits list.splits if_splits)

lemma logged_store_update:
  assumes "levelWithExperience d" and "logged n w"
  shows "logged n (snd (store_update uid d w))"
proof -
  have "write_log (snd (store_update uid d w)) =
        write_log w @ [(uid, d, case write_faults w of [] \<Rightarrow> None | x # _ \<Rightarrow> x)]"
    by (simp add: store_update_def Let_def split: option.splits)
  then show ?thesis
    using assms by (auto simp: logged_def)
qed

lemma snd_readStats: "snd (readStats cat w) = snd (getUserStats cat w)"
  by (simp add: readStats_def split: prod.splits)

lemma snd_updateUserStats:
  "snd (updateUserStats u w) =
     (case current_user w of
        None \<Rightarrow> w
      | Some uid \<Rightarrow> snd (store_update uid (buildUpdateData u (clock_iso w)) w))"
  by (simp add: updateUserStats_def split: option.splits prod.splits)

lemma snd_resetUserStats:
  "snd (resetUserStats w) =
     (case current_user w of None \<Rightarrow> w | Some uid \<Rightarrow> snd (store_update uid resetData w))"
  by (simp add: resetUserStats_def split: option.splits prod.splits)

lemma getUserStats_keeps':
  "user_stats (snd (getUserStats cat w)) = user_stats w \<and>
   write_log (snd (getUserStats cat w)) = write_log w"
  using getUserStats_keeps[of cat w "fst (getUserStats cat w)" "snd (getUserStats cat w)"]
  by simp

lemma storeInvariant_consistent: "storeInvariant (consistent uid)"
  by (simp add: storeInvariant_def preserves_def snd_readStats snd_updateUserStats
      snd_resetUserStats consistent_store_update levelWithExperience_build
      levelWithExperience_reset getUserStats_keeps' consistent_def[of _ "snd (getUserStats _ _)"]
      split: option.splits)
     (simp add: consistent_def)

lemma storeInvariant_logged: "storeInvariant (logged n)"
  by (simp add: storeInvariant_def preserves_def snd_readStats snd_updateUserStats
      snd_resetUserStats logged_store_update levelWithExperience_build
      levelWithExperience_reset getUserStats_keeps' logged_def[of _ "snd (getUserStats _ _)"]
      split: option.splits)
     (simp add: logged_def)

text \<open>
  Claim C5. Every update request that carries experience carries the level
  \<open>floor (experience / 100) + 1\<close> with it, and no request carries a level alone:
  this holds for what \<^verbatim>\<open>updateUserStats\<close> builds, for the data of the reset, and so
  for every request issued by any sequence of operations. Hence a user's record that is
  consistent stays consistent through any sequence of operations, failed ones included.
\<close>

theorem level_follows_experience:
  "levelWithExperience (buildUpdateData updates now) \<and>
   levelWithExperience resetData \<and>
   (\<forall>e \<in> set (requestsSince w (run_ops cat ops w)). levelWithExperience (fst (snd e))) \<and>
   (consistent uid w \<longrightarrow> consistent uid (run_ops cat ops w))"
proof (intro conjI impI)
  show "levelWithExperience (buildUpdateData updates now)"
    by (rule levelWithExperience_build)
  show "levelWithExperience resetData"
    by (rule levelWithExperience_reset)
  show "consistent uid (run_ops cat ops w)" if "consistent uid w"
    using invariant_run_ops[OF storeInvariant_consistent that] .
  show "\<forall>e \<in> set (requestsSince w (run_ops cat ops w)). levelWithExperience (fst (snd e))"
  proof -
    have "logged (length (write_log w)) w"
      by (simp add: logged_def)
    from invariant_run_ops[OF storeInvariant_logged this, of cat ops]
    show ?thesis by (simp add: logged_def requestsSince_def)
  qed
qed

theorem level_follows_experience_witness:
  "consistent ''u1'' (worldOf (Some ''u1'') freshRow) \<and>
   consistent ''u1'' (run_ops demoBadges
      [ProcessUserInteraction ''hello'' [''food'', ''transit''], AddExperience 75,
       UnlockBadge ''explorer''] (worldOf (Some ''u1'') freshRow)) \<and>
   map_option (\<lambda>r. (experience_points r, row_level r))
     (user_stats (run_ops demoBadges
        [ProcessUserInteraction ''hello'' [''food'', ''transit''], AddExperience 75,
         UnlockBadge ''explorer''] (worldOf (Some ''u1'') freshRow)) ''u1'') = Some (185, 2) \<and>
   length (requestsSince (worldOf (Some ''u1'') freshRow) (run_ops demoBadges
      [ProcessUserInteraction ''hello'' [''food'', ''transit''], AddExperience 75,
       UnlockBadge ''explorer''] (worldOf (Some ''u1'') freshRow))) = 9 \<and>
   list_all (\<lambda>e. levelWithExperience (fst (snd e)))
     (requestsSince (worldOf (Some ''u1'') freshRow) (run_ops demoBadges
      [ProcessUserInteraction ''hello'' [''food'', ''transit''], AddExperience 75,
       UnlockBadge ''explorer''] (worldOf (Some ''u1'') freshRow)))"
proof -
  let ?w = "worldOf (Some ''u1'') freshRow"
  let ?ops = "[ProcessUserInteraction ''hello'' [''food'', ''transit''], AddExperience 75,
       UnlockBadge ''explorer'']"
  have a: "consistent ''u1'' ?w"
    by (simp add: consistent_def worldOf_def consistentRow_def freshRow_def)
  note t = level_follows_experience[of _ _ ?w demoBadges ?ops "''u1''"]
  from t a have b: "consistent ''u1'' (run_ops demoBadges ?ops ?w)"
    by blast
  from t have c: "list_all (\<lambda>e. levelWithExperience (fst (snd e)))
     (requestsSince ?w (run_ops demoBadges ?ops ?w))"
    unfolding list_all_iff by blast
  have d: "map_option (\<lambda>r. (experience_points r, row_level r))
     (user_stats (run_ops demoBadges ?ops ?w) ''u1'') = Some (185, 2)"
    by code_simp
  have e: "length (requestsSince ?w (run_ops demoBadges ?ops ?w)) = 9"
    by code_simp
  from a b c d e show ?thesis by simp
qed

section \<open>Failures and the shape of progress\<close>

lemma disciplinedI:
  assumes "\<And>w r w'. f w = (r, w') \<Longrightarrow>
     current_user w' = current_user w \<and>
     (\<exists>new. write_log w' = write_log w @ new \<and>
           (\<forall>u d m. (u, d, Some m) \<in> set new \<longrightarrow> r = Inl (Error m)) \<and>
           (\<forall>e. r = Inl e \<longrightarrow>
              (current_user w = None \<and> e = Error ''User not authenticated'') \<or>
              (\<exists>u d m. (u, d, Some m) \<in> set new \<and> e = Error m)))"
  shows "disciplined f"
  using assms by (auto simp: disciplined_def)

lemma disciplinedD:
  assumes "disciplined f" and "f w = (r, w')"
  obtains new where "current_user w' = current_user w"
    and "write_log w' = write_log w @ new"
    and "\<And>u d m. (u, d, Some m) \<in> set new \<Longrightarrow> r = Inl (Error m)"
    and "\<And>e. r = Inl e \<Longrightarrow>
              (current_user w = None \<and> e = Error ''User not authenticated'') \<or>
              (\<exists>u d m. (u, d, Some m) \<in> set new \<and> e = Error m)"
proof -
  from assms have "current_user w' = current_user w \<and>
        (\<exists>new. write_log w' = write_log w @ new \<and>
           (\<forall>u d m. (u, d, Some m) \<in> set new \<longrightarrow> r = Inl (Error m)) \<and>
           (\<forall>e. r = Inl e \<longrightarrow>
              (current_user w = None \<and> e = Error ''User not authenticated'') \<or>
              (\<exists>u d m. (u, d, Some m) \<in> set new \<and> e = Error m)))"
    unfolding disciplined_def by (auto dest: spec[of _ w])
  then show ?thesis using that by blast
qed

lemma disciplined_ret: "disciplined (ret v)"
  by (simp add: disciplined_def ret_def)

lemma disciplined_bnd:
  assumes f: "disciplined f" and g: "\<And>v. disciplined (g v)"
  shows "disciplined (bnd f g)"
proof (rule disciplinedI)
  fix w r w'
  assume b: "bnd f g w = (r, w')"
  obtain r1 w1 where fw: "f w = (r1, w1)" by (cases "f w")
  from disciplinedD[OF f fw] obtain new1 where
    u1: "current_user w1 = current_user w" and l1: "write_log w1 = write_log w @ new1"
    and p1: "\<And>u d m. (u, d, Some m) \<in> set new1 \<Longrightarrow> r1 = Inl (Error m)"
    and q1: "\<And>e. r1 = Inl e \<Longrightarrow>
              (current_user w = None \<and> e = Error ''User not authenticated'') \<or>
              (\<exists>u d m. (u, d, Some m) \<in> set new1 \<and> e = Error m)"
    by blast
  show "current_user w' = current_user w \<and>
     (\<exists>new. write_log w' = write_log w @ new \<and>
           (\<forall>u d m. (u, d, Some m) \<in> set new \<longrightarrow> r = Inl (Error m)) \<and>
           (\<forall>e. r = Inl e \<longrightarrow>
              (current_user w = None \<and> e = Error ''User not authenticated'') \<or>
              (\<exists>u d m. (u, d, Some m) \<in> set new \<and> e = Error m)))"
  proof (cases r1)
    case (Inl e1)
    with b fw have "r = Inl e1" "w' = w1" by (simp_all add: bnd_def)
    with u1 l1 p1 q1 Inl show ?thesis by blast
  next
    case (Inr v)
    with b fw have gw: "g v w1 = (r, w')" by (simp add: bnd_def)
    from disciplinedD[OF g gw] obtain new2 where
      u2: "current_user w' = current_user w1" and l2: "write_log w' = write_log w1 @ new2"
      and p2: "\<And>u d m. (u, d, Some m) \<in> set new2 \<Longrightarrow> r = Inl (Error m)"
      and q2: "\<And>e. r = Inl e \<Longrightarrow>
              (current_user w1 = None \<and> e = Error ''User not authenticated'') \<or>
              (\<exists>u d m. (u, d, Some m) \<in> set new2 \<and> e = Error m)"
      by blast
    have none1: "(u, d, Some m) \<notin> set new1" for u d m
      using p1[of u d m] Inr by auto
    have "write_log w' = write_log w @ (new1 @ new2)"
      using l1 l2 by simp
    moreover have "\<forall>u d m. (u, d, Some m) \<in> set (new1 @ new2) \<longrightarrow> r = Inl (Error m)"
      using none1 p2 by auto
    moreover have "\<forall>e. r = Inl e \<longrightarrow>
              (current_user w = None \<and> e = Error ''User not authenticated'') \<or>
              (\<exists>u d m. (u, d, Some m) \<in> set (new1 @ new2) \<and> e = Error m)"
      using q2 u1 by fastforce
    ultimately show ?thesis using u1 u2 by metis
  qed
qed

lemma getUserStats_user:
  "current_user (snd (getUserStats cat w)) = current_user w"
  by (auto simp: getUserStats_def store_select_def split: option.splits list.splits prod.splits if_splits)

lemma disciplined_read:
  assumes "\<And>s. length (badges s) = length cat \<Longrightarrow> disciplined (g s)"
  shows "disciplined (bnd (readStats cat) g)"
proof (rule disciplinedI)
  fix w r w'
  assume b: "bnd (readStats cat) g w = (r, w')"
  let ?s = "fst (getUserStats cat w)" and ?w0 = "snd (getUserStats cat w)"
  have "readStats cat w = (Inr ?s, ?w0)"
    by (simp add: readStats_def split: prod.splits)
  with b have gw: "g ?s ?w0 = (r, w')"
    by (simp add: bnd_def)
  have k: "user_stats ?w0 = user_stats w \<and> write_log ?w0 = write_log w"
    using getUserStats_keeps[of cat w ?s ?w0] by simp
  from disciplinedD[OF assms[OF getUserStats_length] gw] obtain new where
    "current_user w' = current_user ?w0" "write_log w' = write_log ?w0 @ new"
    "\<And>u d m. (u, d, Some m) \<in> set new \<Longrightarrow> r = Inl (Error m)"
    "\<And>e. r = Inl e \<Longrightarrow>
              (current_user ?w0 = None \<and> e = Error ''User not authenticated'') \<or>
              (\<exists>u d m. (u, d, Some m) \<in> set new \<and> e = Error m)"
    by blast
  then show "current_user w' = current_user w \<and>
     (\<exists>new. write_log w' = write_log w @ new \<and>
           (\<forall>u d m. (u, d, Some m) \<in> set new \<longrightarrow> r = Inl (Error m)) \<and>
           (\<forall>e. r = Inl e \<longrightarrow>
              (current_user w = None \<and> e = Error ''User not authenticated'') \<or>
              (\<exists>u d m. (u, d, Some m) \<in> set new \<and> e = Error m)))"
    using k getUserStats_user[of cat w] by (intro conjI exI[of _ new]) auto
qed

lemma store_update_log:
  "store_update uid d w = (out, w') \<Longrightarrow>
   current_user w' = current_user w \<and> write_log w' = write_log w @ [(uid, d, out)]"
  by (auto simp: store_update_def Let_def split: option.splits list.splits)

lemma disciplined_updateUserStats: "disciplined (updateUserStats u)"
proof (rule disciplinedI)
  fix w r w'
  assume a: "updateUserStats u w = (r, w')"
  show "current_user w' = current_user w \<and>
     (\<exists>new. write_log w' = write_log w @ new \<and>
           (\<forall>u d m. (u, d, Some m) \<in> set new \<longrightarrow> r = Inl (Error m)) \<and>
           (\<forall>e. r = Inl e \<longrightarrow>
              (current_user w = None \<and> e = Error ''User not authenticated'') \<or>
              (\<exists>u d m. (u, d, Some m) \<in> set new \<and> e = Error m)))"
  proof (cases "current_user w")
    case None
    with a have "r = Inl (Error ''User not authenticated'')" "w' = w"
      by (simp_all add: updateUserStats_def)
    with None show ?thesis by simp
  next
    case (Some uid)
    obtain out w1 where s: "store_update uid (buildUpdateData u (clock_iso w)) w = (out, w1)"
      by (cases "store_update uid (buildUpdateData u (clock_iso w)) w")
    from a Some s have r: "r = (case out of Some m \<Rightarrow> Inl (Error m) | None \<Rightarrow> Inr ())" and "w' = w1"
      by (simp_all add: updateUserStats_def split: option.splits)
    with store_update_log[OF s] have
      "current_user w' = current_user w"
      "write_log w' = write_log w @ [(uid, buildUpdateData u (clock_iso w), out)]"
      by simp_all
    then show ?thesis
      using r by (intro conjI exI[of _ "[(uid, buildUpdateData u (clock_iso w), out)]"])
                 (auto split: option.splits)
  qed
qed

lemma disciplined_resetUserStats: "disciplined resetUserStats"
proof (rule disciplinedI)
  fix w r w'
  assume a: "resetUserStats w = (r, w')"
  show "current_user w' = current_user w \<and>
     (\<exists>new. write_log w' = write_log w @ new \<and>
           (\<forall>u d m. (u, d, Some m) \<in> set new \<longrightarrow> r = Inl (Error m)) \<and>
           (\<forall>e. r = Inl e \<longrightarrow>
              (current_user w = None \<and> e = Error ''User not authenticated'') \<or>
              (\<exists>u d m. (u, d, Some m) \<in> set new \<and> e = Error m)))"
  proof (cases "current_user w")
    case None
    with a have "r = Inl (Error ''User not authenticated'')" "w' = w"
      by (simp_all add: resetUserStats_def)
    with None show ?thesis by simp
  next
    case (Some uid)
    obtain out w1 where s: "store_update uid resetData w = (out, w1)"
      by (cases "store_update uid resetData w")
    from a Some s have r: "r = (case out of Some m \<Rightarrow> Inl (Error m) | None \<Rightarrow> Inr ())" and "w' = w1"
      by (simp_all add: resetUserStats_def split: option.splits)
    with store_update_log[OF s] have
      "current_user w' = current_user w"
      "write_log w' = write_log w @ [(uid, resetData, out)]"
      by simp_all
    then show ?thesis
      using r by (intro conjI exI[of _ "[(uid, resetData, out)]"]) (auto split: option.splits)
  qed
qed

lemmas disciplined_basic =
  disciplined_ret disciplined_bnd disciplined_read disciplined_updateUserStats

lemma disciplined_addExperience: "disciplined (addExperience cat x)"
  unfolding addExperience_def Let_def by (intro disciplined_basic)

lemma disciplined_unlockBadge: "disciplined (unlockBadge cat bid)"
  unfolding unlockBadge_def Let_def
  by (intro disciplined_basic)
     (simp add: disciplined_basic disciplined_addExperience split: option.splits)

lemma disciplined_unlock_unit: "disciplined (bnd (unlockBadge cat bid) (\<lambda>_. ret ()))"
  by (intro disciplined_ret disciplined_bnd disciplined_unlockBadge)

lemma disciplined_addExploredTopic: "disciplined (addExploredTopic cat t)"
  unfolding addExploredTopic_def Let_def
  by (intro disciplined_basic) (simp add: disciplined_basic disciplined_unlock_unit)

lemma disciplined_night_owl:
  "disciplined
     (\<lambda>w. (if clock_hour w \<ge> 22 \<or> clock_hour w < 6
           then bnd (unlockBadge cat ''night_owl'') (\<lambda>_. ret ())
           else ret ()) w)"
  using disciplined_unlock_unit[of cat "''night_owl''"]
  by (simp add: disciplined_def ret_def)

lemma disciplined_incrementMessageCount: "disciplined (incrementMessageCount cat)"
  unfolding incrementMessageCount_def Let_def
  by (intro disciplined_basic disciplined_addExperience disciplined_night_owl)
     (simp add: disciplined_basic disciplined_unlock_unit)

lemma disciplined_addExploredTopics: "disciplined (addExploredTopics cat ts)"
  by (induction ts) (simp_all add: disciplined_ret disciplined_bnd disciplined_addExploredTopic)

lemma disciplined_processUserInteraction: "disciplined (processUserInteraction cat m ts)"
  unfolding processUserInteraction_def Let_def
  by (intro disciplined_basic disciplined_incrementMessageCount disciplined_addExploredTopics)
     (simp add: filterNewBadges_in_bounds disciplined_ret disciplined_bnd disciplined_unlock_unit)

lemma disciplined_generateUserContextSummary: "disciplined (generateUserContextSummary cat)"
  unfolding generateUserContextSummary_def by (intro disciplined_basic)

lemma disciplined_run_op: "disciplined (run_op cat op)"
  by (cases op)
     (simp_all add: disciplined_basic disciplined_addExperience disciplined_unlockBadge
        disciplined_addExploredTopic disciplined_incrementMessageCount
        disciplined_processUserInteraction disciplined_generateUserContextSummary
        disciplined_resetUserStats split_def)

lemma getUserStats_shape:
  "map (\<lambda>b. b\<lparr>unlocked := False\<rparr>) (badges (fst (getUserStats cat w))) =
   map (\<lambda>b. b\<lparr>unlocked := False\<rparr>) cat"
  by (auto simp: getUserStats_def defaultStats_def Let_def split: option.splits prod.splits)

lemma run_op_requests:
  assumes "run_op cat op w = (r, w')"
  shows "(\<forall>u d m. (u, d, Some m) \<in> set (requestsSince w w') \<longrightarrow> r = Inl (Error m)) \<and>
         (\<forall>e. r = Inl e \<longrightarrow>
              (current_user w = None \<and> e = Error ''User not authenticated'') \<or>
              (\<exists>u d m. (u, d, Some m) \<in> set (requestsSince w w') \<and> e = Error m))"
proof -
  have "disciplined (run_op cat op)"
    by (rule disciplined_run_op)
  then have "case run_op cat op w of (r, w') \<Rightarrow>
        current_user w' = current_user w \<and>
        (\<exists>new. write_log w' = write_log w @ new \<and>
           (\<forall>u d m. (u, d, Some m) \<in> set new \<longrightarrow> r = Inl (Error m)) \<and>
           (\<forall>e. r = Inl e \<longrightarrow>
              (current_user w = None \<and> e = Error ''User not authenticated'') \<or>
              (\<exists>u d m. (u, d, Some m) \<in> set new \<and> e = Error m)))"
    unfolding disciplined_def by (rule spec)
  then have "\<exists>new. write_log w' = write_log w @ new \<and>
           ((\<forall>u d m. (u, d, Some m) \<in> set new \<longrightarrow> r = Inl (Error m)) \<and>
           (\<forall>e. r = Inl e \<longrightarrow>
              (current_user w = None \<and> e = Error ''User not authenticated'') \<or>
              (\<exists>u d m. (u, d, Some m) \<in> set new \<and> e = Error m)))"
    by (simp only: assms prod.case)
  then obtain new where l: "write_log w' = write_log w @ new"
    and pq: "(\<forall>u d m. (u, d, Some m) \<in> set new \<longrightarrow> r = Inl (Error m)) \<and>
           (\<forall>e. r = Inl e \<longrightarrow>
              (current_user w = None \<and> e = Error ''User not authenticated'') \<or>
              (\<exists>u d m. (u, d, Some m) \<in> set new \<and> e = Error m))"
    by (elim exE conjE) (rule that, assumption, intro conjI)
  have n: "requestsSince w w' = new"
    by (simp add: requestsSince_def l)
  show ?thesis
    unfolding n by (rule pq)
qed

text \<open>
  Claim C10. In every world the badges that \<^verbatim>\<open>getUserStats\<close> returns are the
  catalog entries, each once and in catalog order, with only the \<open>unlocked\<close> flag
  possibly different; stored badge ids that the catalog lacks do not appear. So for any
  two snapshots the positional read \<^verbatim>\<open>oldStats.badges[idx]\<close> is in bounds: the badge
  filter returns the positional difference, and \<^verbatim>\<open>processUserInteraction\<close> never
  throws a \<^verbatim>\<open>TypeError\<close>.
\<close>

theorem badges_follow_catalog:
  "length (badges (fst (getUserStats cat w))) = length cat \<and>
   map (\<lambda>b. b\<lparr>unlocked := False\<rparr>) (badges (fst (getUserStats cat w))) =
     map (\<lambda>b. b\<lparr>unlocked := False\<rparr>) cat \<and>
   map badge_id (badges (fst (getUserStats cat w))) = map badge_id cat \<and>
   filterNewBadges (badges (fst (getUserStats cat w))) 0 (badges (fst (getUserStats cat w'))) =
     Inr (positionalDiff (badges (fst (getUserStats cat w))) (badges (fst (getUserStats cat w')))) \<and>
   fst (processUserInteraction cat messageText topics w) \<noteq> Inl TypeError"
proof (intro conjI)
  show "length (badges (fst (getUserStats cat w))) = length cat"
    by (rule getUserStats_length)
  show "map (\<lambda>b. b\<lparr>unlocked := False\<rparr>) (badges (fst (getUserStats cat w))) =
     map (\<lambda>b. b\<lparr>unlocked := False\<rparr>) cat"
    by (rule getUserStats_shape)
  have "map badge_id (map (\<lambda>b. b\<lparr>unlocked := False\<rparr>) (badges (fst (getUserStats cat w)))) =
        map badge_id (map (\<lambda>b. b\<lparr>unlocked := False\<rparr>) cat)"
    by (simp only: getUserStats_shape)
  then show "map badge_id (badges (fst (getUserStats cat w))) = map badge_id cat"
    by (simp add: comp_def)
  show "filterNewBadges (badges (fst (getUserStats cat w))) 0 (badges (fst (getUserStats cat w'))) =
     Inr (positionalDiff (badges (fst (getUserStats cat w))) (badges (fst (getUserStats cat w'))))"
    using filterNewBadges_in_bounds[of 0 "badges (fst (getUserStats cat w'))"
        "badges (fst (getUserStats cat w))"]
    by (simp add: getUserStats_length)
  show "fst (processUserInteraction cat messageText topics w) \<noteq> Inl TypeError"
  proof
    assume t: "fst (processUserInteraction cat messageText topics w) = Inl TypeError"
    obtain r w1 where p: "processUserInteraction cat messageText topics w = (r, w1)"
      by (cases "processUserInteraction cat messageText topics w")
    from t p have "r = Inl TypeError" by simp
    with disciplinedD[OF disciplined_processUserInteraction p] show False
      by blast
  qed
qed

theorem badges_follow_catalog_witness:
  "badges (fst (getUserStats demoBadges (worldOf (Some ''u1'') ghostRow))) =
     [\<lparr>badge_id = ''freshman'', badge_name = ''Freshman'', unlocked = False\<rparr>,
      \<lparr>badge_id = ''explorer'', badge_name = ''Explorer'', unlocked = True\<rparr>,
      \<lparr>badge_id = ''scholar'', badge_name = ''Scholar'', unlocked = False\<rparr>,
      \<lparr>badge_id = ''night_owl'', badge_name = ''Night Owl'', unlocked = False\<rparr>] \<and>
   length (badges (fst (getUserStats demoBadges (worldOf (Some ''u1'') ghostRow)))) = length demoBadges \<and>
   map badge_id (badges (fst (getUserStats demoBadges (worldOf (Some ''u1'') ghostRow)))) =
     map badge_id demoBadges \<and>
   filterNewBadges (badges (fst (getUserStats demoBadges (worldOf None freshRow)))) 0
       (badges (fst (getUserStats demoBadges (worldOf (Some ''u1'') ghostRow)))) =
     Inr [\<lparr>badge_id = ''explorer'', badge_name = ''Explorer'', unlocked = True\<rparr>]"
proof -
  have a: "badges (fst (getUserStats demoBadges (worldOf (Some ''u1'') ghostRow))) =
     [\<lparr>badge_id = ''freshman'', badge_name = ''Freshman'', unlocked = False\<rparr>,
      \<lparr>badge_id = ''explorer'', badge_name = ''Explorer'', unlocked = True\<rparr>,
      \<lparr>badge_id = ''scholar'', badge_name = ''Scholar'', unlocked = False\<rparr>,
      \<lparr>badge_id = ''night_owl'', badge_name = ''Night Owl'', unlocked = False\<rparr>]"
    by code_simp
  have b: "positionalDiff (badges (fst (getUserStats demoBadges (worldOf None freshRow))))
       (badges (fst (getUserStats demoBadges (worldOf (Some ''u1'') ghostRow)))) =
     [\<lparr>badge_id = ''explorer'', badge_name = ''Explorer'', unlocked = True\<rparr>]"
    by code_simp
  have c: "length demoBadges = 4" "map badge_id demoBadges = [''freshman'', ''explorer'', ''scholar'', ''night_owl'']"
    by (simp_all add: demoBadges_def)
  note t1 = badges_follow_catalog[of demoBadges "worldOf (Some ''u1'') ghostRow"]
  note t2 = badges_follow_catalog[of demoBadges "worldOf None freshRow" "worldOf (Some ''u1'') ghostRow"]
  from t1 have l: "length (badges (fst (getUserStats demoBadges (worldOf (Some ''u1'') ghostRow)))) = length demoBadges"
    and i: "map badge_id (badges (fst (getUserStats demoBadges (worldOf (Some ''u1'') ghostRow)))) =
     map badge_id demoBadges"
    by blast+
  from t2 have f: "filterNewBadges (badges (fst (getUserStats demoBadges (worldOf None freshRow)))) 0
       (badges (fst (getUserStats demoBadges (worldOf (Some ''u1'') ghostRow)))) =
     Inr (positionalDiff (badges (fst (getUserStats demoBadges (worldOf None freshRow))))
       (badges (fst (getUserStats demoBadges (worldOf (Some ''u1'') ghostRow)))))"
    by blast
  show ?thesis
    unfolding f b using a l i by simp
qed

lemma getUserStats_failed_read:
  assumes "current_user w = Some uid" and "fst (store_select uid w) = None"
  shows "getUserStats cat w = (defaultStats cat, snd (store_select uid w))"
  using assms by (cases "store_select uid w") (simp add: getUserStats_def)

lemma failed_write:
  assumes "current_user w = Some uid" and "write_faults w = Some m # rest"
  shows "fst (updateUserStats updates w) = Inl (Error m) \<and>
         user_stats (snd (updateUserStats updates w)) = user_stats w \<and>
         fst (resetUserStats w) = Inl (Error m) \<and>
         user_stats (snd (resetUserStats w)) = user_stats w"
  using assms by (simp add: updateUserStats_def resetUserStats_def store_update_def Let_def)

text \<open>
  Claim C9. A failed store read is absorbed: when the read of a signed-in user's row
  fails, for whatever reason, \<^verbatim>\<open>getUserStats\<close> returns the default progress
  (experience 0, level 1, the catalog as declared, hence all badges locked when the
  catalog declares them locked, no topics, no messages) and does not throw or write.
  A failed store write propagates: whenever an update request issued by an operation
  fails with a message, the operation throws that message; in particular
  \<^verbatim>\<open>updateUserStats\<close> and \<^verbatim>\<open>resetUserStats\<close> throw the message of their failed
  write and leave the table as it was.
\<close>

theorem store_failures:
  "(current_user w = Some uid \<and> fst (store_select uid w) = None \<longrightarrow>
      fst (run_op cat GetUserStats w) =
        Inr (Stats \<lparr> experience = 0, level = 1, badges = cat, nextLevelXP = 100,
                     topicsExplored = [], messagesCount = 0 \<rparr>) \<and>
      user_stats (snd (run_op cat GetUserStats w)) = user_stats w \<and>
      ((\<forall>b \<in> set cat. \<not> unlocked b) \<longrightarrow>
         (\<forall>b \<in> set (badges (fst (getUserStats cat w))). \<not> unlocked b))) \<and>
   (\<forall>u d m. (u, d, Some m) \<in> set (requestsSince w (snd (run_op cat op w))) \<longrightarrow>
      fst (run_op cat op w) = Inl (Error m)) \<and>
   (current_user w = Some uid \<and> write_faults w = Some m # rest \<longrightarrow>
      fst (updateUserStats updates w) = Inl (Error m) \<and>
      user_stats (snd (updateUserStats updates w)) = user_stats w \<and>
      fst (resetUserStats w) = Inl (Error m) \<and>
      user_stats (snd (resetUserStats w)) = user_stats w)"
proof (intro conjI impI)
  assume a: "current_user w = Some uid \<and> fst (store_select uid w) = None"
  then have g: "getUserStats cat w = (defaultStats cat, snd (store_select uid w))"
    using getUserStats_failed_read[of w uid cat] by simp
  show "fst (run_op cat GetUserStats w) =
        Inr (Stats \<lparr> experience = 0, level = 1, badges = cat, nextLevelXP = 100,
                     topicsExplored = [], messagesCount = 0 \<rparr>)"
    by (simp add: bnd_def readStats_def ret_def g defaultStats_def)
  show "user_stats (snd (run_op cat GetUserStats w)) = user_stats w"
    using getUserStats_keeps[OF g]
    by (simp add: bnd_def readStats_def ret_def g)
  show "\<forall>b \<in> set (badges (fst (getUserStats cat w))). \<not> unlocked b"
    if "\<forall>b \<in> set cat. \<not> unlocked b"
    using that by (simp add: g defaultStats_def)
next
  show "\<forall>u d m. (u, d, Some m) \<in> set (requestsSince w (snd (run_op cat op w))) \<longrightarrow>
      fst (run_op cat op w) = Inl (Error m)"
    using run_op_requests[of cat op w "fst (run_op cat op w)" "snd (run_op cat op w)"]
    by simp
next
  assume a: "current_user w = Some uid \<and> write_faults w = Some m # rest"
  then have f: "fst (updateUserStats updates w) = Inl (Error m) \<and>
         user_stats (snd (updateUserStats updates w)) = user_stats w \<and>
         fst (resetUserStats w) = Inl (Error m) \<and>
         user_stats (snd (resetUserStats w)) = user_stats w"
    using failed_write[of w uid m rest updates] by simp
  from f show "fst (updateUserStats updates w) = Inl (Error m)" by simp
  from f show "user_stats (snd (updateUserStats updates w)) = user_stats w" by simp
  from f show "fst (resetUserStats w) = Inl (Error m)" by simp
  from f show "user_stats (snd (resetUserStats w)) = user_stats w" by simp
qed

theorem store_failures_witness:
  "current_user ((worldOf (Some ''u1'') freshRow)\<lparr>read_faults := [True]\<rparr>) = Some ''u1'' \<and>
   fst (store_select ''u1'' ((worldOf (Some ''u1'') freshRow)\<lparr>read_faults := [True]\<rparr>)) = None \<and>
   list_all (\<lambda>b. \<not> unlocked b) demoBadges \<and>
   fst (run_op demoBadges GetUserStats ((worldOf (Some ''u1'') freshRow)\<lparr>read_faults := [True]\<rparr>)) =
     Inr (Stats \<lparr> experience = 0, level = 1, badges = demoBadges, nextLevelXP = 100,
                  topicsExplored = [], messagesCount = 0 \<rparr>) \<and>
   list_all (\<lambda>b. \<not> unlocked b)
     (badges (fst (getUserStats demoBadges ((worldOf (Some ''u1'') freshRow)\<lparr>read_faults := [True]\<rparr>)))) \<and>
   (''u1'', buildUpdateData (noUpdates\<lparr>upd_experience := Some 10\<rparr>) ''2024-05-01T12:00:00.000Z'',
      Some ''boom'')
     \<in> set (requestsSince ((worldOf (Some ''u1'') freshRow)\<lparr>write_faults := [None, Some ''boom'']\<rparr>)
          (snd (run_op demoBadges IncrementMessageCount
             ((worldOf (Some ''u1'') freshRow)\<lparr>write_faults := [None, Some ''boom'']\<rparr>)))) \<and>
   fst (run_op demoBadges IncrementMessageCount
      ((worldOf (Some ''u1'') freshRow)\<lparr>write_faults := [None, Some ''boom'']\<rparr>)) = Inl (Error ''boom'') \<and>
   write_faults ((worldOf (Some ''u1'') freshRow)\<lparr>write_faults := [Some ''down'']\<rparr>) = [Some ''down''] \<and>
   fst (updateUserStats (noUpdates\<lparr>upd_experience := Some 5\<rparr>)
      ((worldOf (Some ''u1'') freshRow)\<lparr>write_faults := [Some ''down'']\<rparr>)) = Inl (Error ''down'') \<and>
   fst (resetUserStats ((worldOf (Some ''u1'') freshRow)\<lparr>write_faults := [Some ''down'']\<rparr>)) =
     Inl (Error ''down'')"
proof -
  let ?wr = "(worldOf (Some ''u1'') freshRow)\<lparr>read_faults := [True]\<rparr>"
  let ?ww = "(worldOf (Some ''u1'') freshRow)\<lparr>write_faults := [None, Some ''boom'']\<rparr>"
  let ?wf = "(worldOf (Some ''u1'') freshRow)\<lparr>write_faults := [Some ''down'']\<rparr>"
  let ?d = "buildUpdateData (noUpdates\<lparr>upd_experience := Some 10\<rparr>) ''2024-05-01T12:00:00.000Z''"
  have h1: "current_user ?wr = Some ''u1''" "fst (store_select ''u1'' ?wr) = None"
    by (simp_all add: worldOf_def store_select_def)
  have h2: "\<forall>b \<in> set demoBadges. \<not> unlocked b"
    by (simp add: demoBadges_def)
  have h3: "(''u1'', ?d, Some ''boom'')
     \<in> set (requestsSince ?ww (snd (run_op demoBadges IncrementMessageCount ?ww)))"
    by code_simp
  have h4: "current_user ?wf = Some ''u1''" "write_faults ?wf = Some ''down'' # []"
    by (simp_all add: worldOf_def)
  note t1 = store_failures[where w = ?wr and uid = "''u1''" and cat = demoBadges]
  note t2 = store_failures[where w = ?ww and cat = demoBadges and op = IncrementMessageCount]
  note t3 = store_failures[where w = ?wf and uid = "''u1''" and m = "''down''" and rest = "[]"
      and updates = "noUpdates\<lparr>upd_experience := Some 5\<rparr>"]
  from t1 h1 h2 have a: "fst (run_op demoBadges GetUserStats ?wr) =
     Inr (Stats \<lparr> experience = 0, level = 1, badges = demoBadges, nextLevelXP = 100,
                  topicsExplored = [], messagesCount = 0 \<rparr>)"
    and b: "\<forall>b \<in> set (badges (fst (getUserStats demoBadges ?wr))). \<not> unlocked b"
    by blast+
  from t2 h3 have c: "fst (run_op demoBadges IncrementMessageCount ?ww) = Inl (Error ''boom'')"
    by blast
  from t3 h4 have d: "fst (updateUserStats (noUpdates\<lparr>upd_experience := Some 5\<rparr>) ?wf) = Inl (Error ''down'')"
    "fst (resetUserStats ?wf) = Inl (Error ''down'')"
    by blast+
  from h1 h2 h3 h4 a b c d show ?thesis
    by (simp add: list_all_iff)
qed















end
